theory Spec2Isabelle
  imports Main "HOL-Library.Word"
begin

unbundle bit_operations_syntax

section \<open>Data model\<close>

text \<open>
  The transactional client of the key-value store (package \<open>client\<close>, file
  \<open>client/kv.go\<close>) together with the wire types it uses (\<open>proto/data.proto\<close>).
  Go values are embedded as follows: \<open>[]byte\<close> is a list of 8-bit words, a nullable
  protobuf field is an \<open>option\<close>, \<open>int32\<close>/\<open>int64\<close> are 32/64-bit words read with
  \<open>sint\<close>, an \<open>error\<close> is a \<open>go_error option\<close> with \<open>None\<close> for \<open>nil\<close>.
\<close>

type_synonym byte = "8 word"
type_synonym Key = "byte list"

text \<open>\<open>message Timestamp\<close> of \<open>data.proto\<close>; both fields are non-nullable.\<close>

record Timestamp =
  WallTime :: "64 word"
  Logical :: "32 word"

text \<open>\<open>proto.Timestamp{}\<close>, the zero value.\<close>

definition zero_Timestamp :: Timestamp where
  "zero_Timestamp = \<lparr>WallTime = 0, Logical = 0\<rparr>"

text \<open>\<open>message Value\<close> of \<open>data.proto\<close>; all four fields are optional.\<close>

record Value =
  Bytes :: "byte list option"
  Integer :: "64 word option"
  Checksum :: "32 word option"
  Timestamp :: "Timestamp option"

text \<open>
  The errors the client distinguishes. The first four are the retryable kinds of the
  switch in \<open>RunTransaction\<close>; \<open>Errorf\<close> stands for an error made by \<open>util.Errorf\<close>
  and carries the format string; \<open>IntegrityError\<close> is the checksum mismatch of
  \<open>Value.Verify\<close>; \<open>DecodeError\<close> is whatever the gob or protobuf decoder reports;
  \<open>TransportError\<close> is a transient fault of the transport (a connection failure, a
  timeout during send).
\<close>

datatype go_error =
    ReadWithinUncertaintyIntervalError
  | TransactionAbortedError
  | TransactionPushError
  | TransactionRetryError
  | TransactionStatusError
  | RangeNotFoundError
  | RangeKeyMismatchError
  | GenericError string
  | Errorf string
  | IntegrityError
  | DecodeError
  | RetryMaxAttemptsError nat
  | TransportError

section \<open>Value envelope and checksum\<close>

text \<open>
  Modelled from the spec: the methods \<open>InitChecksum\<close> and \<open>Verify\<close> of \<open>proto.Value\<close>
  and the CRC helper they use live in files of the repository that are not part of the
  sources at hand (\<open>proto/data.go\<close>, \<open>util/encoding\<close>). The spec and the comment on
  field \<open>checksum\<close> in \<open>data.proto\<close> fix them: CRC-32/IEEE over the key followed by
  the payload, an integer payload taken as 8 bytes big-endian; \<open>init_checksum\<close> is a
  no-op when a checksum is already set; \<open>verify\<close> recomputes and compares and accepts
  an absent checksum.

  CRC-32/IEEE is the reflected CRC with polynomial \<open>0xEDB88320\<close>, initial value and
  final xor \<open>0xFFFFFFFF\<close>. \<open>crc_bit\<close> is one shift of the register, \<open>crc_byte\<close>
  absorbs one byte.
\<close>

definition crc_bit :: "32 word \<Rightarrow> 32 word" where
  "crc_bit c = (if bit c 0 then drop_bit 1 c XOR 0xEDB88320 else drop_bit 1 c)"

definition crc_byte :: "32 word \<Rightarrow> byte \<Rightarrow> 32 word" where
  "crc_byte c b = (crc_bit ^^ 8) (c XOR ucast b)"

definition crc_update :: "32 word \<Rightarrow> byte list \<Rightarrow> 32 word" where
  "crc_update c bs = foldl crc_byte c bs"

definition ChecksumIEEE :: "byte list \<Rightarrow> 32 word" where
  "ChecksumIEEE bs = NOT (crc_update (NOT 0) bs)"

text \<open>Modelled from the spec: the 8-byte big-endian form of an integer payload.\<close>

definition EncodeUint64 :: "64 word \<Rightarrow> byte list" where
  "EncodeUint64 v = map (\<lambda>i. ucast (drop_bit (8 * i) v)) [7, 6, 5, 4, 3, 2, 1, 0]"

text \<open>
  Modelled from the spec: the bytes the checksum covers after the key. The spec's
  \<open>payload_bytes\<close> is "either the raw bytes or the big-endian 8-byte form of the
  integer"; a value with neither field contributes nothing.
\<close>

definition payload_bytes :: "Value \<Rightarrow> byte list" where
  "payload_bytes v =
     (case Bytes v of
        Some bs \<Rightarrow> bs
      | None \<Rightarrow> (case Integer v of Some i \<Rightarrow> EncodeUint64 i | None \<Rightarrow> []))"

definition computeChecksum :: "Key \<Rightarrow> Value \<Rightarrow> 32 word" where
  "computeChecksum key v = ChecksumIEEE (key @ payload_bytes v)"

text \<open>Modelled from the spec: \<open>init_checksum(key)\<close>, a no-op if a checksum is set.\<close>

definition InitChecksum :: "Key \<Rightarrow> Value \<Rightarrow> Value" where
  "InitChecksum key v =
     (case Checksum v of
        None \<Rightarrow> v\<lparr>Checksum := Some (computeChecksum key v)\<rparr>
      | Some _ \<Rightarrow> v)"

text \<open>
  Modelled from the spec: \<open>verify(key)\<close> recomputes and compares, fails with
  \<open>IntegrityError\<close> on mismatch; an absent checksum is accepted.
\<close>

definition Verify :: "Key \<Rightarrow> Value \<Rightarrow> go_error option" where
  "Verify key v =
     (case Checksum v of
        None \<Rightarrow> None
      | Some c \<Rightarrow> if computeChecksum key v \<noteq> c then Some IntegrityError else None)"

section \<open>Requests, replies and the sender interface\<close>

datatype IsolationType = SERIALIZABLE | SNAPSHOT

datatype TransactionStatus = PENDING | COMMITTED | ABORTED

text \<open>\<open>message Transaction\<close> of \<open>data.proto\<close>, with the field names of the message.\<close>

record Transaction =
  txn_name :: string
  txn_id :: "byte list"
  priority :: "32 word"
  isolation :: IsolationType
  status :: TransactionStatus
  epoch :: "32 word"
  timestamp :: Timestamp
  max_timestamp :: Timestamp
  last_heartbeat :: "Timestamp option"

text \<open>
  The request header, as far as the client writes it: \<open>User\<close> (empty when unset),
  \<open>UserPriority\<close> (a nullable \<open>int32\<close>), \<open>Key\<close>, \<open>Txn\<close> and the command
  identifier, a pair of a wall time in nanoseconds and a random number.
\<close>

type_synonym ClientCmdID = "64 word \<times> 64 word"

record RequestHeader =
  user :: string
  user_priority :: "32 word option"
  key :: Key
  txn :: "Transaction option"
  cmd_id :: "ClientCmdID option"

definition empty_header :: RequestHeader where
  "empty_header = \<lparr>user = [], user_priority = None, key = [], txn = None, cmd_id = None\<rparr>"

text \<open>The requests \<open>kv.go\<close> builds; every request embeds a header.\<close>

datatype Request =
    GetRequest RequestHeader
  | PutRequest RequestHeader Value
  | EndTransactionRequest RequestHeader bool

fun Header :: "Request \<Rightarrow> RequestHeader" where
  "Header (GetRequest h) = h"
| "Header (PutRequest h v) = h"
| "Header (EndTransactionRequest h c) = h"

fun set_Header :: "RequestHeader \<Rightarrow> Request \<Rightarrow> Request" where
  "set_Header h (GetRequest _) = GetRequest h"
| "set_Header h (PutRequest _ v) = PutRequest h v"
| "set_Header h (EndTransactionRequest _ c) = EndTransactionRequest h c"

text \<open>The method tag of a call (the request taxonomy of the API).\<close>

datatype Method =
    Get | Put | ConditionalPut | Increment | Delete | DeleteRange | Scan
  | EndTransaction | InternalMethod string

text \<open>
  A reply: the error of the response header (\<open>Header().GoError()\<close>), the transaction
  the response header may carry, and the value of a \<open>GetResponse\<close>.
\<close>

record Reply =
  GoError :: "go_error option"
  RTxn :: "Transaction option"
  RValue :: "Value option"

text \<open>\<open>client.Call\<close>: method and arguments; the reply is returned by \<open>Send\<close>.\<close>

record Call =
  Method :: Method
  Args :: Request

text \<open>
  The state the client runs in. \<open>net\<close> is the state of the routing layer behind the
  wrapped sender, and \<open>wire\<close> lists the calls handed to it, oldest first. \<open>txnEnd\<close>
  and \<open>coord_txn\<close> are the fields \<open>txnEnd\<close> and \<open>txn\<close> of the \<open>txnSender\<close> that
  \<open>RunTransaction\<close> creates, \<open>closed\<close> records its \<open>Close\<close>. \<open>slept\<close> lists the
  waits of the retry loop in nanoseconds and \<open>logged\<close> the lines of \<open>log.Errorf\<close>
  (the abort error and the error that caused the abort).
\<close>

record 's state =
  net :: 's
  wire :: "Call list"
  txnEnd :: bool
  coord_txn :: "Transaction option"
  closed :: bool
  slept :: "int list"
  logged :: "(go_error \<times> go_error) list"

text \<open>The routing sender: it answers a call and moves its own state.\<close>

type_synonym 's route = "Call \<Rightarrow> 's \<Rightarrow> Reply \<times> 's"

text \<open>
  \<open>KVSender\<close> is an interface; a value of it is its dynamic type (which
  \<open>RunTransaction\<close> and \<open>Sender\<close> switch on), its two methods, and the sender it wraps.
\<close>

datatype sender_type = singleCallSender | txnSender

record 's KVSender =
  dyn :: sender_type
  Send :: "Call \<Rightarrow> 's state \<Rightarrow> Reply \<times> 's state"
  Close :: "'s state \<Rightarrow> 's state"
  wrapped :: "'s route"

record 's KV =
  User :: string
  UserPriority :: "32 word"
  sender :: "'s KVSender"

text \<open>\<open>KV.Sender\<close>: the wrapped sender, for both sender types.\<close>

definition Sender :: "'s KV \<Rightarrow> 's route" where
  "Sender kv = (case dyn (sender kv) of
                  singleCallSender \<Rightarrow> wrapped (sender kv)
                | txnSender \<Rightarrow> wrapped (sender kv))"

text \<open>
  \<open>KV.Call\<close>: fill in user and user priority where the header has none, send, and
  return the reply; the Go function returns \<open>GoError\<close> of that reply.
\<close>

definition KV_Call :: "'s KV \<Rightarrow> Method \<Rightarrow> Request \<Rightarrow> 's state \<Rightarrow> Reply \<times> 's state" where
  "KV_Call kv method args s =
     (let h = Header args;
          h1 = (if user h = [] then h\<lparr>user := User kv\<rparr> else h);
          h2 = (if user_priority h1 = None \<and> UserPriority kv \<noteq> 0
                then h1\<lparr>user_priority := Some (UserPriority kv)\<rparr> else h1);
          call = \<lparr>Method = method, Args = set_Header h2 args\<rparr>
      in Send (sender kv) call s)"

section \<open>The transactional sender\<close>

text \<open>\<open>TransactionOptions\<close> of \<open>kv.go\<close>.\<close>

record TransactionOptions =
  Name :: string
  Isolation :: IsolationType

text \<open>
  What a fresh transaction takes from outside the program: the random id and priority,
  the reading of the clock and the maximum clock skew.
\<close>

record TxnSeed =
  rand_id :: "byte list"
  rand_priority :: "32 word"
  now :: "64 word"
  max_clock_skew :: "64 word"

text \<open>
  Modelled from the spec: \<open>txnSender.Send\<close> (file \<open>client/txn_sender.go\<close> is not among
  the sources). It attaches the current transaction to the request header, forwards
  the call to the wrapped sender, adopts the transaction a response header carries, and
  sets \<open>txnEnd\<close> when the call was an \<open>EndTransaction\<close>, whether it succeeded or not.
\<close>

definition txnSender_Send :: "'s route \<Rightarrow> Call \<Rightarrow> 's state \<Rightarrow> Reply \<times> 's state" where
  "txnSender_Send w call s =
     (let call' = call\<lparr>Args := set_Header ((Header (Args call))\<lparr>txn := coord_txn s\<rparr>) (Args call)\<rparr>;
          (reply, n') = w call' (net s);
          s1 = s\<lparr>net := n', wire := wire s @ [call']\<rparr>;
          s2 = (case RTxn reply of Some t \<Rightarrow> s1\<lparr>coord_txn := Some t\<rparr> | None \<Rightarrow> s1);
          s3 = (if Method call = EndTransaction then s2\<lparr>txnEnd := True\<rparr> else s2)
      in (reply, s3))"

text \<open>
  Modelled from the spec: \<open>newTxnSender\<close> builds the transaction record (random id and
  priority, isolation and name from the options, status pending, epoch 0, timestamp from
  the clock, maximum timestamp one clock skew later) and wraps the routing sender.
\<close>

definition newTxnSender :: "'s route \<Rightarrow> TxnSeed \<Rightarrow> TransactionOptions \<Rightarrow> 's state \<Rightarrow> 's KVSender \<times> 's state" where
  "newTxnSender w seed opts s =
     (\<lparr>dyn = txnSender,
       Send = txnSender_Send w,
       Close = (\<lambda>s. s\<lparr>closed := True\<rparr>),
       wrapped = w\<rparr>,
      s\<lparr>txnEnd := False,
        coord_txn := Some \<lparr>txn_name = Name opts, txn_id = rand_id seed,
                           priority = rand_priority seed, isolation = Isolation opts,
                           status = PENDING, epoch = 0,
                           timestamp = \<lparr>WallTime = now seed, Logical = 0\<rparr>,
                           max_timestamp = \<lparr>WallTime = now seed + max_clock_skew seed, Logical = 0\<rparr>,
                           last_heartbeat = None\<rparr>,
        closed := False\<rparr>)"

text \<open>\<open>KV.Close\<close> closes the sender.\<close>

definition KV_Close :: "'s KV \<Rightarrow> 's state \<Rightarrow> 's state" where
  "KV_Close kv s = Close (sender kv) s"

section \<open>The retry loop\<close>

text \<open>
  \<open>util.RetryOptions\<close>, with durations in nanoseconds. \<open>Constant\<close> is a \<open>float64\<close>
  in Go; it is 2 here and the products stay far below \<open>2^53\<close>, so integer
  multiplication gives the same durations.
\<close>

record RetryOptions =
  Tag :: string
  Backoff :: int
  MaxBackoff :: int
  Constant :: int
  MaxAttempts :: nat

definition Millisecond :: int where
  "Millisecond = 1000000"

definition Second :: int where
  "Second = 1000 * Millisecond"

text \<open>\<open>TxnRetryOptions\<close> of \<open>kv.go\<close>.\<close>

definition TxnRetryOptions :: RetryOptions where
  "TxnRetryOptions = \<lparr>Tag = [], Backoff = 50 * Millisecond, MaxBackoff = 5 * Second,
                       Constant = 2, MaxAttempts = 0\<rparr>"

datatype RetryStatus = RetryBreak | RetryReset | RetryContinue

text \<open>What a Go call ends with: it returns a value or panics.\<close>

datatype 'a outcome = Ret 'a | Panic

text \<open>Modelled from the spec: the next backoff, multiplied by the factor and capped.\<close>

definition next_backoff :: "RetryOptions \<Rightarrow> int \<Rightarrow> int" where
  "next_backoff opts b = min (b * Constant opts) (MaxBackoff opts)"

text \<open>
  Modelled from the spec: \<open>util.RetryWithBackoff\<close> (package \<open>util\<close> is not among the
  sources). The loop calls \<open>fn\<close>; on \<open>RetryBreak\<close> it returns the error of \<open>fn\<close>; on
  \<open>RetryReset\<close> it retries at once and the backoff starts over; on \<open>RetryContinue\<close> it
  sleeps for the current backoff, raises the backoff and retries. With
  \<open>MaxAttempts = 0\<close> it retries without bound; the spec does not say what a bounded
  loop returns when it gives up, the model returns \<open>RetryMaxAttemptsError\<close>. A panic of
  \<open>fn\<close> leaves the loop. The loop may run forever, so the model takes fuel, one unit
  per call of \<open>fn\<close>, and \<open>None\<close> means that the fuel did not suffice.
\<close>

fun RetryWithBackoff ::
  "nat \<Rightarrow> RetryOptions \<Rightarrow> int \<Rightarrow> nat \<Rightarrow>
   ('s state \<Rightarrow> (RetryStatus \<times> go_error option) outcome \<times> 's state) \<Rightarrow>
   's state \<Rightarrow> (go_error option outcome \<times> 's state) option" where
  "RetryWithBackoff 0 opts backoff count fn s = None"
| "RetryWithBackoff (Suc fuel) opts backoff count fn s =
     (case fn s of
        (Panic, s') \<Rightarrow> Some (Panic, s')
      | (Ret (RetryBreak, err), s') \<Rightarrow> Some (Ret err, s')
      | (Ret (RetryReset, err), s') \<Rightarrow> RetryWithBackoff fuel opts (Backoff opts) 1 fn s'
      | (Ret (RetryContinue, err), s') \<Rightarrow>
          if 0 < MaxAttempts opts \<and> MaxAttempts opts \<le> count
          then Some (Ret (Some (RetryMaxAttemptsError (MaxAttempts opts))), s')
          else RetryWithBackoff fuel opts (next_backoff opts backoff) (Suc count) fn
                 (s'\<lparr>slept := slept s' @ [backoff]\<rparr>))"

section \<open>The dispatcher\<close>

text \<open>
  Modelled from the spec: the class of errors the dispatcher retries, the transient
  faults of the transport. Success and every logical error go back to the caller.
\<close>

definition transient :: "go_error option \<Rightarrow> bool" where
  "transient e = (e = Some TransportError)"

text \<open>
  Modelled from the spec: the backoff parameters the dispatcher uses by default, initial
  backoff 50 ms, factor 2, maximum backoff 5 s, and no bound on the attempts
  (\<open>MaxAttempts = 0\<close>).
\<close>

definition DefaultRetryOptions :: RetryOptions where
  "DefaultRetryOptions = \<lparr>Tag = [], Backoff = 50 * Millisecond, MaxBackoff = 5 * Second,
                           Constant = 2, MaxAttempts = 0\<rparr>"

text \<open>
  Modelled from the spec: the command identifier is written into the request header
  once per logical call, before the first send.
\<close>

definition assign_cmd_id :: "ClientCmdID \<Rightarrow> Call \<Rightarrow> Call" where
  "assign_cmd_id cid call =
     call\<lparr>Args := set_Header ((Header (Args call))\<lparr>cmd_id := Some cid\<rparr>) (Args call)\<rparr>"

text \<open>
  Modelled from the spec: the sends of one logical call (\<open>client/sender.go\<close>, with the
  \<open>singleCallSender\<close> that \<open>NewKV\<close> wraps around the routing sender, is not among the
  sources). The call goes to the routing layer; on a transient fault the dispatcher
  sleeps for the current backoff, raises the backoff and sends the same call again, with
  the same command identifier; any other reply goes back to the caller. When the
  attempts are bounded and exhausted, the reply with the transient fault goes back to the
  caller. The retry options are a parameter: they are configurable. The loop may run
  forever, so the model takes fuel, one unit per send, and \<open>None\<close> means that the fuel
  did not suffice.
\<close>

fun send_retry ::
  "nat \<Rightarrow> RetryOptions \<Rightarrow> int \<Rightarrow> nat \<Rightarrow> 's route \<Rightarrow> Call \<Rightarrow> 's state \<Rightarrow>
   (Reply \<times> 's state) option" where
  "send_retry 0 opts backoff count w call s = None"
| "send_retry (Suc fuel) opts backoff count w call s =
     (case w call (net s) of
        (reply, n') \<Rightarrow>
          if transient (GoError reply)
          then if 0 < MaxAttempts opts \<and> MaxAttempts opts \<le> count
               then Some (reply, s\<lparr>net := n', wire := wire s @ [call]\<rparr>)
               else send_retry fuel opts (next_backoff opts backoff) (Suc count) w call
                      (s\<lparr>net := n', wire := wire s @ [call], slept := slept s @ [backoff]\<rparr>)
          else Some (reply, s\<lparr>net := n', wire := wire s @ [call]\<rparr>))"

text \<open>
  Modelled from the spec: \<open>singleCallSender.Send\<close> assigns the command identifier
  \<open>cid\<close> (a wall time and a random number, both from outside the program) and sends
  with retries, starting from the initial backoff.
\<close>

definition singleCallSender_Send ::
  "nat \<Rightarrow> RetryOptions \<Rightarrow> ClientCmdID \<Rightarrow> 's route \<Rightarrow> Call \<Rightarrow> 's state \<Rightarrow>
   (Reply \<times> 's state) option" where
  "singleCallSender_Send fuel opts cid w call s =
     send_retry fuel opts (Backoff opts) 1 w (assign_cmd_id cid call) s"

section \<open>RunTransaction\<close>

text \<open>
  The function handed to \<open>RunTransaction\<close> acts on the store through the transactional
  handle it is given: it issues calls, sees their replies, and in the end returns an
  error (or \<open>nil\<close>) or panics.
\<close>

datatype closure =
    Return "go_error option"
  | Panics
  | TxnCall Method Request "Reply \<Rightarrow> closure"

primrec run_closure :: "'s KV \<Rightarrow> closure \<Rightarrow> 's state \<Rightarrow> go_error option outcome \<times> 's state" where
  "run_closure txnKV (Return err) s = (Ret err, s)"
| "run_closure txnKV Panics s = (Panic, s)"
| "run_closure txnKV (TxnCall m args k) s =
     (case KV_Call txnKV m args s of (reply, s') \<Rightarrow> run_closure txnKV (k reply) s')"

text \<open>
  One epoch, up to the switch: reset \<open>txnEnd\<close>, run \<open>retryable\<close>, and commit if it
  returned no error and did not end the transaction itself.
\<close>

definition attempt :: "'s KV \<Rightarrow> closure \<Rightarrow> 's state \<Rightarrow> go_error option outcome \<times> 's state" where
  "attempt txnKV retryable s =
     (case run_closure txnKV retryable (s\<lparr>txnEnd := False\<rparr>) of
        (Panic, s1) \<Rightarrow> (Panic, s1)
      | (Ret err, s1) \<Rightarrow>
          if err = None \<and> \<not> txnEnd s1
          then (case KV_Call txnKV EndTransaction (EndTransactionRequest empty_header True) s1 of
                  (etReply, s2) \<Rightarrow> (Ret (GoError etReply), s2))
          else (Ret err, s1))"

text \<open>The type switch on the error of the epoch.\<close>

fun dispatch :: "go_error option \<Rightarrow> RetryStatus \<times> go_error option" where
  "dispatch (Some ReadWithinUncertaintyIntervalError) = (RetryReset, None)"
| "dispatch (Some TransactionAbortedError) = (RetryContinue, None)"
| "dispatch (Some TransactionPushError) = (RetryContinue, None)"
| "dispatch (Some TransactionRetryError) = (RetryReset, None)"
| "dispatch t = (RetryBreak, t)"

text \<open>The function \<open>RunTransaction\<close> passes to \<open>RetryWithBackoff\<close>.\<close>

definition txn_body :: "'s KV \<Rightarrow> closure \<Rightarrow> 's state \<Rightarrow> (RetryStatus \<times> go_error option) outcome \<times> 's state" where
  "txn_body txnKV retryable s =
     (case attempt txnKV retryable s of
        (Panic, s') \<Rightarrow> (Panic, s')
      | (Ret err, s') \<Rightarrow> (Ret (dispatch err), s'))"

text \<open>The transactional child handle: a new \<open>txnSender\<close> around the wrapped sender.\<close>

definition child :: "'s KV \<Rightarrow> TxnSeed \<Rightarrow> TransactionOptions \<Rightarrow> 's state \<Rightarrow> 's KV \<times> 's state" where
  "child kv seed opts s =
     (case newTxnSender (Sender kv) seed opts s of
        (ts, s0) \<Rightarrow> (\<lparr>User = User kv, UserPriority = UserPriority kv, sender = ts\<rparr>, s0))"

text \<open>The retry loop of \<open>RunTransaction\<close> on the child handle.\<close>

definition retry_loop ::
  "nat \<Rightarrow> 's KV \<Rightarrow> TransactionOptions \<Rightarrow> closure \<Rightarrow> 's state \<Rightarrow>
   (go_error option outcome \<times> 's state) option" where
  "retry_loop fuel txnKV opts retryable s0 =
     (let retryOpts = TxnRetryOptions\<lparr>Tag := Name opts\<rparr>
      in RetryWithBackoff fuel retryOpts (Backoff retryOpts) 1 (txn_body txnKV retryable) s0)"

definition NestedTransactionError :: go_error where
  "NestedTransactionError = Errorf ''cannot invoke RunTransaction on an already-transactional client''"

text \<open>
  \<open>RunTransaction\<close>. The deferred \<open>txnKV.Close()\<close> runs on every way out once the
  child handle exists, also when \<open>retryable\<close> panics; the panic then goes on to the
  caller.
\<close>

definition RunTransaction ::
  "nat \<Rightarrow> TxnSeed \<Rightarrow> 's KV \<Rightarrow> TransactionOptions \<Rightarrow> closure \<Rightarrow> 's state \<Rightarrow>
   (go_error option outcome \<times> 's state) option" where
  "RunTransaction fuel seed kv opts retryable s =
     (if dyn (sender kv) = txnSender then Some (Ret (Some NestedTransactionError), s)
      else
        (case child kv seed opts s of
           (txnKV, s0) \<Rightarrow>
             (case retry_loop fuel txnKV opts retryable s0 of
                None \<Rightarrow> None
              | Some (Panic, s1) \<Rightarrow> Some (Panic, KV_Close txnKV s1)
              | Some (Ret err, s1) \<Rightarrow>
                  if err \<noteq> None \<and> \<not> txnEnd s1
                  then (case KV_Call txnKV EndTransaction (EndTransactionRequest empty_header False) s1 of
                          (etReply, s2) \<Rightarrow>
                            Some (Ret err,
                                  KV_Close txnKV
                                    (case (GoError etReply, err) of
                                       (Some ae, Some e) \<Rightarrow> s2\<lparr>logged := logged s2 @ [(ae, e)]\<rparr>
                                     | _ \<Rightarrow> s2)))
                  else Some (Ret None, KV_Close txnKV s1))))"

section \<open>Typed reads and writes\<close>

text \<open>\<open>getInternal\<close>: the value of the reply and the result of its verification.\<close>

definition getInternal :: "'s KV \<Rightarrow> Key \<Rightarrow> 's state \<Rightarrow> (Value option \<times> go_error option) \<times> 's state" where
  "getInternal kv k s =
     (case KV_Call kv Get (GetRequest (empty_header\<lparr>key := k\<rparr>)) s of
        (reply, s') \<Rightarrow>
          (case GoError reply of
             Some err \<Rightarrow> ((None, Some err), s')
           | None \<Rightarrow>
               (case RValue reply of
                  Some v \<Rightarrow> ((Some v, Verify k v), s')
                | None \<Rightarrow> ((None, None), s'))))"

text \<open>
  \<open>GetI\<close> and \<open>GetProto\<close> differ in the decoder only (gob, protobuf), which is a
  parameter here: it says whether the bytes decode. \<open>*value.Timestamp\<close> panics on a
  value without timestamp.
\<close>

definition get_decoded ::
  "(byte list \<Rightarrow> go_error option) \<Rightarrow> 's KV \<Rightarrow> Key \<Rightarrow> 's state \<Rightarrow>
   (bool \<times> Timestamp \<times> go_error option) outcome \<times> 's state" where
  "get_decoded decode kv k s =
     (case getInternal kv k s of
        ((val, err), s') \<Rightarrow>
          (case val of
             None \<Rightarrow> (Ret (False, zero_Timestamp, err), s')
           | Some v \<Rightarrow>
               if err \<noteq> None then (Ret (False, zero_Timestamp, err), s')
               else if Integer v \<noteq> None
               then (Ret (False, zero_Timestamp,
                          Some (Errorf ''unexpected integer value at key %q: %+v'')), s')
               else (case Timestamp v of
                       None \<Rightarrow> (Panic, s')
                     | Some ts \<Rightarrow>
                         (Ret (True, ts,
                               decode (case Bytes v of Some bs \<Rightarrow> bs | None \<Rightarrow> [])), s'))))"

definition GetI ::
  "(byte list \<Rightarrow> go_error option) \<Rightarrow> 's KV \<Rightarrow> Key \<Rightarrow> 's state \<Rightarrow>
   (bool \<times> Timestamp \<times> go_error option) outcome \<times> 's state" where
  "GetI gob_decode kv k s = get_decoded gob_decode kv k s"

definition GetProto ::
  "(byte list \<Rightarrow> go_error option) \<Rightarrow> 's KV \<Rightarrow> Key \<Rightarrow> 's state \<Rightarrow>
   (bool \<times> Timestamp \<times> go_error option) outcome \<times> 's state" where
  "GetProto unmarshal kv k s = get_decoded unmarshal kv k s"

text \<open>\<open>putInternal\<close>: initialise the checksum for the key, then \<open>Put\<close>.\<close>

definition putInternal :: "'s KV \<Rightarrow> Key \<Rightarrow> Value \<Rightarrow> 's state \<Rightarrow> go_error option \<times> 's state" where
  "putInternal kv k v s =
     (case KV_Call kv Put (PutRequest (empty_header\<lparr>key := k\<rparr>) (InitChecksum k v)) s of
        (reply, s') \<Rightarrow> (GoError reply, s'))"

section \<open>Observations on the wire\<close>

text \<open>
  The header \<open>KV.Call\<close> sends for a header \<open>h\<close>: user and user priority are
  filled in from the handle where \<open>h\<close> has none.
\<close>

definition decorated :: "'s KV \<Rightarrow> RequestHeader \<Rightarrow> RequestHeader" where
  "decorated kv h =
     \<lparr>user = (if user h = [] then User kv else user h),
      user_priority = (if user_priority h = None \<and> UserPriority kv \<noteq> 0
                       then Some (UserPriority kv) else user_priority h),
      key = key h, txn = txn h, cmd_id = cmd_id h\<rparr>"

text \<open>A call with the transaction \<open>t\<close> attached to its header.\<close>

definition attach :: "Call \<Rightarrow> Transaction option \<Rightarrow> Call" where
  "attach call t = call\<lparr>Args := set_Header ((Header (Args call))\<lparr>txn := t\<rparr>) (Args call)\<rparr>"

text \<open>The number of \<open>EndTransaction\<close> calls in a list of calls.\<close>

definition ends :: "Call list \<Rightarrow> nat" where
  "ends cs = length (filter (\<lambda>c. Method c = EndTransaction) cs)"

text \<open>The calls that reached the wire between state \<open>s\<close> and a later state \<open>s'\<close>.\<close>

definition issued :: "'s state \<Rightarrow> 's state \<Rightarrow> Call list" where
  "issued s s' = drop (length (wire s)) (wire s')"

text \<open>
  What running calls through a transactional handle does to the state, apart from the
  routing layer and the transaction record: the wire grows, \<open>txnEnd\<close> is set exactly
  when an \<open>EndTransaction\<close> was among the calls, and nothing else changes.
\<close>

definition follows :: "'s state \<Rightarrow> 's state \<Rightarrow> bool" where
  "follows s s1 \<longleftrightarrow>
     wire s1 = wire s @ issued s s1 \<and> txnEnd s1 = (txnEnd s \<or> 0 < ends (issued s s1))
     \<and> slept s1 = slept s \<and> logged s1 = logged s \<and> closed s1 = closed s"

section \<open>Test fixtures\<close>

text \<open>
  The fixtures of \<open>kv_test.go\<close>: a client with user \<open>foo\<close> and user priority 101,
  and test senders that answer every call in a fixed way. The test senders of
  \<open>kv_test.go\<close> never report a transient fault, so the sender of the client hands each
  call to the test sender once (\<open>direct_Send\<close>); the command identifier, which comes from
  the clock and a random number, is left out of the fixture.
\<close>

definition empty_reply :: Reply where
  "empty_reply = \<lparr>GoError = None, RTxn = None, RValue = None\<rparr>"

definition direct_Send :: "'s route \<Rightarrow> Call \<Rightarrow> 's state \<Rightarrow> Reply \<times> 's state" where
  "direct_Send w call s =
     (case w call (net s) of (reply, n') \<Rightarrow> (reply, s\<lparr>net := n', wire := wire s @ [call]\<rparr>))"

definition test_client :: "'s route \<Rightarrow> 's KV" where
  "test_client w =
     \<lparr>User = ''foo'', UserPriority = 101,
      sender = \<lparr>dyn = singleCallSender, Send = direct_Send w, Close = (\<lambda>s. s), wrapped = w\<rparr>\<rparr>"

definition init_state :: "'s \<Rightarrow> 's state" where
  "init_state n = \<lparr>net = n, wire = [], txnEnd = False, coord_txn = None, closed = False,
                   slept = [], logged = []\<rparr>"

definition test_seed :: TxnSeed where
  "test_seed = \<lparr>rand_id = [1, 2, 3], rand_priority = 7, now = 1000, max_clock_skew = 250\<rparr>"

definition test_opts :: TransactionOptions where
  "test_opts = \<lparr>Name = ''test'', Isolation = SERIALIZABLE\<rparr>"

text \<open>The test sender \<open>newTestSender(func(call *Call) {})\<close>: every reply is empty.\<close>

definition silent_route :: "unit route" where
  "silent_route call n = (empty_reply, n)"

definition int_value :: Value where
  "int_value = \<lparr>Bytes = None, Integer = Some 7, Checksum = None, Timestamp = None\<rparr>"

text \<open>A test sender whose replies carry an integer value.\<close>

definition int_route :: "unit route" where
  "int_route call n = (empty_reply\<lparr>RValue := Some int_value\<rparr>, n)"

text \<open>A value with a byte payload and nothing else.\<close>

definition bytes_value :: "byte list \<Rightarrow> Value" where
  "bytes_value bs = \<lparr>Bytes = Some bs, Integer = None, Checksum = None, Timestamp = None\<rparr>"

text \<open>
  A function for the retry loop that asks to continue as often as the number in \<open>net\<close>
  says and then breaks without error.
\<close>

definition count_down :: "nat state \<Rightarrow> (RetryStatus \<times> go_error option) outcome \<times> nat state" where
  "count_down s = (if net s = 0 then (Ret (RetryBreak, None), s)
                   else (Ret (RetryContinue, None), s\<lparr>net := net s - 1\<rparr>))"

text \<open>The put request of the tests.\<close>

definition testPutReq :: Request where
  "testPutReq = PutRequest (empty_header\<lparr>key := [0x61]\<rparr>) (bytes_value [0x76])"

text \<open>
  The test sender of \<open>TestKVRunTransactionRetryOnErrors\<close>: it counts the \<open>Put\<close>
  calls and answers the first of them with the error \<open>e\<close>.
\<close>

definition fail_first :: "go_error \<Rightarrow> nat route" where
  "fail_first e call n =
     (if Method call = Put
      then (if n = 0 then empty_reply\<lparr>GoError := Some e\<rparr> else empty_reply, Suc n)
      else (empty_reply, n))"

text \<open>A test sender that answers every \<open>EndTransaction\<close> with the error \<open>e\<close>.\<close>

definition fail_end :: "go_error \<Rightarrow> unit route" where
  "fail_end e call n =
     (if Method call = EndTransaction then (empty_reply\<lparr>GoError := Some e\<rparr>, n) else (empty_reply, n))"

text \<open>A transaction body that puts once and returns the error of the put.\<close>

definition put_closure :: closure where
  "put_closure = TxnCall Put testPutReq (\<lambda>reply. Return (GoError reply))"

text \<open>A transaction body that commits by itself, as in \<open>TestKVCommitTransactionOnce\<close>.\<close>

definition end_closure :: closure where
  "end_closure = TxnCall EndTransaction (EndTransactionRequest empty_header True) (\<lambda>reply. Return None)"

text \<open>
  What a test looks at after a run: the result, the methods on the wire with the
  commit flag of each \<open>EndTransaction\<close>, the waits, \<open>txnEnd\<close> and \<open>closed\<close>.
\<close>

definition observe :: "(go_error option outcome \<times> 's state) option \<Rightarrow>
    (go_error option outcome \<times> (Method \<times> bool option) list \<times> int list \<times> bool \<times> bool) option" where
  "observe res = map_option (\<lambda>(r, s). (r,
       map (\<lambda>c. (Method c, case Args c of EndTransactionRequest h commit \<Rightarrow> Some commit | _ \<Rightarrow> None)) (wire s),
       slept s, txnEnd s, closed s)) res"

text \<open>
  Routing layers for the dispatcher: one that answers with a transient fault as often as
  the number in its state says and then succeeds, one that always answers with a
  transient fault, and one that always gives the reply \<open>r\<close>.
\<close>

definition flaky :: "nat route" where
  "flaky call n = (if n = 0 then (empty_reply, 0)
                   else (empty_reply\<lparr>GoError := Some TransportError\<rparr>, n - 1))"

definition dead :: "unit route" where
  "dead call n = (empty_reply\<lparr>GoError := Some TransportError\<rparr>, n)"

definition steady :: "Reply \<Rightarrow> unit route" where
  "steady r call n = (r, n)"

section \<open>Reads\<close>

lemma getInternal_absent:
  assumes "KV_Call kv Get (GetRequest (empty_header\<lparr>key := k\<rparr>)) s = (reply, s')"
    and "GoError reply = None" and "RValue reply = None"
  shows "getInternal kv k s = ((None, None), s')"
  using assms by (simp add: getInternal_def)

lemma getInternal_integer:
  assumes "KV_Call kv Get (GetRequest (empty_header\<lparr>key := k\<rparr>)) s = (reply, s')"
    and "RValue reply = Some v"
  shows "getInternal kv k s =
           (case GoError reply of Some err \<Rightarrow> ((None, Some err), s')
            | None \<Rightarrow> ((Some v, Verify k v), s'))"
  using assms by (simp add: getInternal_def split: option.splits)

text \<open>
  Claim C6. A key is absent when the \<open>Get\<close> call comes back without error and without
  value. \<open>GetI\<close> and \<open>GetProto\<close> then return \<open>(false, zero timestamp, nil)\<close>: the
  absence is not an error.
\<close>

theorem GetI_absent_key:
  assumes "KV_Call kv Get (GetRequest (empty_header\<lparr>key := k\<rparr>)) s = (reply, s')"
    and "GoError reply = None" and "RValue reply = None"
  shows "GetI d kv k s = (Ret (False, zero_Timestamp, None), s')
       \<and> GetProto d kv k s = (Ret (False, zero_Timestamp, None), s')"
  using getInternal_absent [OF assms]
  by (simp add: GetI_def GetProto_def get_decoded_def)

theorem GetI_absent_key_witness:
  "GetI (\<lambda>bs. None) (test_client silent_route) [107] (init_state ())
     = (Ret (False, zero_Timestamp, None),
        (init_state ())\<lparr>wire := [\<lparr>Method = Get,
             Args = GetRequest \<lparr>user = ''foo'', user_priority = Some 101, key = [107], txn = None, cmd_id = None\<rparr>\<rparr>]\<rparr>)"
  using GetI_absent_key [of "test_client silent_route" "[107]" "init_state ()" empty_reply
      "(init_state ())\<lparr>wire := [\<lparr>Method = Get,
             Args = GetRequest \<lparr>user = ''foo'', user_priority = Some 101, key = [107], txn = None, cmd_id = None\<rparr>\<rparr>]\<rparr>"
      "\<lambda>bs. None"]
  by (simp add: KV_Call_def test_client_def Let_def direct_Send_def silent_route_def
      empty_reply_def init_state_def empty_header_def)

text \<open>
  Claim C7. When the reply to the \<open>Get\<close> call carries a value whose \<open>Integer\<close> field
  is set, \<open>GetI\<close> and \<open>GetProto\<close> return \<open>(false, zero timestamp, err)\<close> with a
  non-nil \<open>err\<close>, although a value exists at the key. The error is that of the call or
  of the checksum when one of them fails, and the "unexpected integer value" error
  otherwise.
\<close>

theorem GetI_integer_value:
  assumes "KV_Call kv Get (GetRequest (empty_header\<lparr>key := k\<rparr>)) s = (reply, s')"
    and "RValue reply = Some v" and "Integer v \<noteq> None"
  shows "\<exists>e. GetI d kv k s = (Ret (False, zero_Timestamp, Some e), s')
           \<and> GetProto d kv k s = (Ret (False, zero_Timestamp, Some e), s')
           \<and> (GoError reply = None \<and> Verify k v = None \<longrightarrow>
                e = Errorf ''unexpected integer value at key %q: %+v'')"
  using getInternal_integer [OF assms(1,2)] assms(3)
  by (cases "GoError reply"; cases "Verify k v")
     (simp_all add: GetI_def GetProto_def get_decoded_def)

theorem GetI_integer_value_witness:
  "GetI (\<lambda>bs. None) (test_client int_route) [107] (init_state ())
     = (Ret (False, zero_Timestamp, Some (Errorf ''unexpected integer value at key %q: %+v'')),
        (init_state ())\<lparr>wire := [\<lparr>Method = Get,
             Args = GetRequest \<lparr>user = ''foo'', user_priority = Some 101, key = [107], txn = None, cmd_id = None\<rparr>\<rparr>]\<rparr>)"
  using GetI_integer_value [of "test_client int_route" "[107]" "init_state ()"
      "empty_reply\<lparr>RValue := Some int_value\<rparr>"
      "(init_state ())\<lparr>wire := [\<lparr>Method = Get,
             Args = GetRequest \<lparr>user = ''foo'', user_priority = Some 101, key = [107], txn = None, cmd_id = None\<rparr>\<rparr>]\<rparr>"
      int_value "\<lambda>bs. None"]
  by (auto simp add: KV_Call_def test_client_def Let_def direct_Send_def int_route_def
      empty_reply_def init_state_def empty_header_def int_value_def Verify_def)

section \<open>Nested transactions\<close>

text \<open>
  Claim C4. \<open>RunTransaction\<close> on a handle whose sender is a \<open>txnSender\<close> returns the
  nested-transaction error at once, whatever the fuel, and leaves the state as it was:
  nothing is sent.
\<close>

theorem nested_transaction_refused:
  "dyn (sender kv) = txnSender \<Longrightarrow>
   RunTransaction fuel seed kv opts retryable s = Some (Ret (Some NestedTransactionError), s)"
  by (simp add: RunTransaction_def)

theorem nested_transaction_refused_witness:
  "dyn (sender (fst (child (test_client silent_route) test_seed test_opts (init_state ())))) = txnSender
   \<and> RunTransaction 0 test_seed (fst (child (test_client silent_route) test_seed test_opts (init_state ())))
       test_opts (Return None) (init_state ())
     = Some (Ret (Some NestedTransactionError), init_state ())"
  using nested_transaction_refused [of "fst (child (test_client silent_route) test_seed test_opts (init_state ()))"
      0 test_seed test_opts "Return None" "init_state ()"]
  by (simp add: child_def newTxnSender_def)

section \<open>The checksum\<close>

text \<open>
  One shift of the CRC register is injective: the top bit of the result tells whether
  the polynomial was added. Hence a byte changes the register injectively, in the
  register and in the byte, and two messages that differ in exactly one byte have
  different checksums.
\<close>

lemma xor_cancel_right: "(a :: 32 word) XOR k = b XOR k \<Longrightarrow> a = b"
proof -
  assume "a XOR k = b XOR k"
  then have "(a XOR k) XOR k = (b XOR k) XOR k" by simp
  then show "a = b" by (simp add: xor.assoc)
qed

lemma xor_cancel_left: "(k :: 32 word) XOR a = k XOR b \<Longrightarrow> a = b"
  using xor_cancel_right [of a k b] by (simp add: xor.commute)

lemma drop_bit_top: "\<not> bit (drop_bit 1 (c :: 32 word)) 31"
proof
  assume "bit (drop_bit 1 c) 31"
  then have "bit c 32" by (simp add: bit_drop_bit_eq)
  then show False by (auto dest: bit_imp_le_length)
qed

lemma crc_bit_top: "bit (crc_bit c) 31 = bit c 0"
  using drop_bit_top [of c] by (simp add: crc_bit_def bit_xor_iff)

lemma word_split_low:
  fixes c d :: "32 word"
  assumes "drop_bit 1 c = drop_bit 1 d" and "bit c 0 = bit d 0"
  shows "c = d"
proof -
  have "take_bit 1 c = take_bit 1 d"
    using assms(2) by (simp add: bit_0 mod_2_eq_odd)
  then have "push_bit 1 (drop_bit 1 c) + take_bit 1 c = push_bit 1 (drop_bit 1 d) + take_bit 1 d"
    using assms(1) by simp
  then show ?thesis by (simp only: bits_ident)
qed

lemma crc_bit_inject: "crc_bit c = crc_bit d \<Longrightarrow> c = d"
proof -
  assume eq: "crc_bit c = crc_bit d"
  have low: "bit c 0 = bit d 0"
    using crc_bit_top [of c] crc_bit_top [of d] eq by simp
  have "drop_bit 1 c = drop_bit 1 d"
    using eq low by (cases "bit d 0") (auto simp: crc_bit_def dest: xor_cancel_right)
  then show "c = d" using low by (rule word_split_low)
qed

lemma ucast_byte_inject: "(ucast (a :: byte) :: 32 word) = ucast b \<Longrightarrow> a = b"
proof -
  assume "(ucast a :: 32 word) = ucast b"
  then have "(ucast (ucast a :: 32 word) :: byte) = ucast (ucast b :: 32 word)" by simp
  moreover have "is_up (ucast :: byte \<Rightarrow> 32 word)" by (simp add: is_up)
  ultimately show "a = b" by (simp add: ucast_up_ucast_id)
qed

lemma crc_bit_pow_inject: "(crc_bit ^^ n) c = (crc_bit ^^ n) d \<Longrightarrow> c = d"
  by (induction n) (auto dest: crc_bit_inject)

lemma crc_byte_inject_state: "crc_byte c b = crc_byte d b \<Longrightarrow> c = d"
  by (auto simp: crc_byte_def dest!: crc_bit_pow_inject xor_cancel_right)

lemma crc_byte_inject_byte: "crc_byte c a = crc_byte c b \<Longrightarrow> a = b"
  by (auto simp: crc_byte_def dest!: crc_bit_pow_inject xor_cancel_left ucast_byte_inject)

lemma crc_update_inject_state: "crc_update c bs = crc_update d bs \<Longrightarrow> c = d"
  unfolding crc_update_def
  by (induction bs arbitrary: c d) (auto dest: crc_byte_inject_state)

lemma crc_update_append: "crc_update c (xs @ ys) = crc_update (crc_update c xs) ys"
  by (simp add: crc_update_def)

lemma ChecksumIEEE_one_byte:
  assumes "a \<noteq> b"
  shows "ChecksumIEEE (xs @ a # ys) \<noteq> ChecksumIEEE (xs @ b # ys)"
proof
  assume "ChecksumIEEE (xs @ a # ys) = ChecksumIEEE (xs @ b # ys)"
  then have "crc_update (crc_update (NOT 0) xs) (a # ys) = crc_update (crc_update (NOT 0) xs) (b # ys)"
    by (simp add: ChecksumIEEE_def crc_update_append)
  then have "crc_update (crc_byte (crc_update (NOT 0) xs) a) ys = crc_update (crc_byte (crc_update (NOT 0) xs) b) ys"
    by (simp add: crc_update_def)
  then have "crc_byte (crc_update (NOT 0) xs) a = crc_byte (crc_update (NOT 0) xs) b"
    by (rule crc_update_inject_state)
  then have "a = b" by (rule crc_byte_inject_byte)
  with assms show False by simp
qed

lemma crc_byte_unroll:
  "crc_byte c b = crc_bit (crc_bit (crc_bit (crc_bit (crc_bit (crc_bit (crc_bit (crc_bit (c XOR ucast b))))))))"
  by (simp add: crc_byte_def eval_nat_numeral)

lemmas crc_eval = ChecksumIEEE_def crc_update_def crc_byte_unroll crc_bit_def

lemma crc_check_value: "ChecksumIEEE [0x31, 0x32, 0x33, 0x34, 0x35, 0x36, 0x37, 0x38, 0x39] = 0xCBF43926"
  by (simp add: crc_eval)

lemma crc_collision_payload: "ChecksumIEEE [0x6B, 65, 6, 113, 219, 1] = ChecksumIEEE [0x6B, 0, 0, 0, 0, 0]"
  by (simp add: crc_eval)

lemma crc_collision_key:
  "ChecksumIEEE [32, 103, 16, 186, 96, 0x76] = ChecksumIEEE [0x61, 0x61, 0x61, 0x61, 0x61, 0x76]"
  by (simp add: crc_eval)

lemma crc_ka: "ChecksumIEEE [0x6B, 0x61] = 0xFD65F15D"
  by (simp add: crc_eval)

lemma InitChecksum_unset:
  "Checksum v = None \<Longrightarrow> InitChecksum k v = v\<lparr>Checksum := Some (ChecksumIEEE (k @ payload_bytes v))\<rparr>"
  by (simp add: InitChecksum_def computeChecksum_def)

lemma Verify_iff:
  "Checksum v = Some c \<Longrightarrow> Verify k v = (if ChecksumIEEE (k @ payload_bytes v) = c then None else Some IntegrityError)"
  by (simp add: Verify_def computeChecksum_def)

lemma payload_bytes_Checksum_update [simp]:
  "payload_bytes (v\<lparr>Checksum := c\<rparr>) = payload_bytes v"
  by (simp add: payload_bytes_def split: option.splits)

text \<open>
  Claim C8, as amended. For a value whose checksum is not yet set,
  \<open>InitChecksum\<close> stores the CRC-32/IEEE of the key followed by the payload, and
  \<open>Verify\<close> with the same key on the unchanged value succeeds; when a checksum is
  already set, \<open>InitChecksum\<close> changes nothing. After that, \<open>Verify\<close> on a changed
  value or with a changed key fails exactly when the CRC of the new key and payload
  differs from the stored one, and it does whenever the two byte strings differ in
  exactly one byte. The payload of an integer value is its 8-byte big-endian form.
\<close>

theorem checksum_init_verify:
  "(Checksum v = None \<longrightarrow>
      Checksum (InitChecksum k v) = Some (ChecksumIEEE (k @ payload_bytes v))
      \<and> Verify k (InitChecksum k v) = None)
   \<and> (Checksum v \<noteq> None \<longrightarrow> InitChecksum k v = v)
   \<and> (Checksum v' = Checksum (InitChecksum k v) \<and> Checksum v = None \<longrightarrow>
        (Verify k' v' = None) = (ChecksumIEEE (k' @ payload_bytes v') = ChecksumIEEE (k @ payload_bytes v)))
   \<and> (Checksum v' = Checksum (InitChecksum k v) \<and> Checksum v = None
        \<and> k @ payload_bytes v = xs @ a # ys \<and> k' @ payload_bytes v' = xs @ b # ys \<and> a \<noteq> b \<longrightarrow>
        Verify k' v' = Some IntegrityError)
   \<and> (Bytes v = None \<and> Integer v = Some i \<longrightarrow>
        computeChecksum k v = ChecksumIEEE (k @ EncodeUint64 i) \<and> length (EncodeUint64 i) = 8)
   \<and> (Bytes v = Some bs \<longrightarrow> computeChecksum k v = ChecksumIEEE (k @ bs))
   \<and> EncodeUint64 0x0102030405060708 = [1, 2, 3, 4, 5, 6, 7, 8]
   \<and> ChecksumIEEE [0x31, 0x32, 0x33, 0x34, 0x35, 0x36, 0x37, 0x38, 0x39] = 0xCBF43926"
proof -
  have p1: "Checksum v = None \<Longrightarrow> Checksum (InitChecksum k v) = Some (ChecksumIEEE (k @ payload_bytes v))"
    by (simp add: InitChecksum_unset)
  have p2: "Checksum v = None \<Longrightarrow> Verify k (InitChecksum k v) = None"
    by (simp add: InitChecksum_unset Verify_iff)
  have p3: "Checksum v \<noteq> None \<Longrightarrow> InitChecksum k v = v"
    by (auto simp: InitChecksum_def)
  have p4: "Checksum v' = Checksum (InitChecksum k v) \<Longrightarrow> Checksum v = None \<Longrightarrow>
        (Verify k' v' = None) = (ChecksumIEEE (k' @ payload_bytes v') = ChecksumIEEE (k @ payload_bytes v))"
    by (simp add: InitChecksum_unset Verify_iff)
  have p5: "Checksum v' = Checksum (InitChecksum k v) \<Longrightarrow> Checksum v = None \<Longrightarrow>
        k @ payload_bytes v = xs @ a # ys \<Longrightarrow> k' @ payload_bytes v' = xs @ b # ys \<Longrightarrow> a \<noteq> b \<Longrightarrow>
        Verify k' v' = Some IntegrityError"
    using ChecksumIEEE_one_byte [of b a xs ys]
    by (simp add: InitChecksum_unset Verify_iff)
  have p6: "Bytes v = None \<Longrightarrow> Integer v = Some i \<Longrightarrow> computeChecksum k v = ChecksumIEEE (k @ EncodeUint64 i)"
    by (simp add: computeChecksum_def payload_bytes_def)
  have p7: "length (EncodeUint64 i) = 8"
    by (simp add: EncodeUint64_def)
  have p8: "Bytes v = Some bs \<Longrightarrow> computeChecksum k v = ChecksumIEEE (k @ bs)"
    by (simp add: computeChecksum_def payload_bytes_def)
  have p9: "EncodeUint64 0x0102030405060708 = [1, 2, 3, 4, 5, 6, 7, 8]"
    by (simp add: EncodeUint64_def)
  show ?thesis
    using p1 p2 p3 p4 p5 p6 p7 p8 p9 crc_check_value by blast
qed

theorem checksum_init_verify_witness:
  "Verify [0x6B] (InitChecksum [0x6B] (bytes_value [0x61])) = None
   \<and> Checksum (InitChecksum [0x6B] (bytes_value [0x61])) = Some 0xFD65F15D
   \<and> InitChecksum [0x6B] ((bytes_value [0x61])\<lparr>Checksum := Some 0\<rparr>) = (bytes_value [0x61])\<lparr>Checksum := Some 0\<rparr>
   \<and> Verify [0x6B] ((InitChecksum [0x6B] (bytes_value [0x61]))\<lparr>Bytes := Some [0x62]\<rparr>) = Some IntegrityError
   \<and> Verify [0x6C] (InitChecksum [0x6B] (bytes_value [0x61])) = Some IntegrityError
   \<and> computeChecksum [0x6B] int_value = ChecksumIEEE [0x6B, 0, 0, 0, 0, 0, 0, 0, 7]"
  using checksum_init_verify [where v = "bytes_value [0x61]" and k = "[0x6B]"
          and v' = "(InitChecksum [0x6B] (bytes_value [0x61]))\<lparr>Bytes := Some [0x62]\<rparr>" and k' = "[0x6B]"
          and xs = "[0x6B]" and a = "0x61" and ys = "[]" and b = "0x62" and i = 7 and bs = "[0x61]"]
        checksum_init_verify [where v = "bytes_value [0x61]" and k = "[0x6B]"
          and v' = "InitChecksum [0x6B] (bytes_value [0x61])" and k' = "[0x6C]"
          and xs = "[]" and a = "0x6B" and ys = "[0x61]" and b = "0x6C" and i = 7 and bs = "[0x61]"]
        checksum_init_verify [where v = "(bytes_value [0x61])\<lparr>Checksum := Some 0\<rparr>" and k = "[0x6B]"
          and v' = "bytes_value [0x61]" and k' = "[0x6B]"
          and xs = "[]" and a = "0x6B" and ys = "[0x61]" and b = "0x6C" and i = 7 and bs = "[0x61]"]
        checksum_init_verify [where v = int_value and k = "[0x6B]"
          and v' = "bytes_value [0x61]" and k' = "[0x6B]"
          and xs = "[]" and a = "0x6B" and ys = "[0x61]" and b = "0x6C" and i = 7 and bs = "[0x61]"]
  by (simp add: bytes_value_def int_value_def payload_bytes_def crc_ka EncodeUint64_def
      InitChecksum_def computeChecksum_def)

theorem checksum_init_verify_counterexample:
  "Verify [0x6B] (InitChecksum [0x6B] ((bytes_value [0x61])\<lparr>Checksum := Some 0\<rparr>)) = Some IntegrityError
   \<and> Verify [0x6B] ((InitChecksum [0x6B] (bytes_value [0, 0, 0, 0, 0]))\<lparr>Bytes := Some [65, 6, 113, 219, 1]\<rparr>) = None
   \<and> Verify [32, 103, 16, 186, 96] (InitChecksum [0x61, 0x61, 0x61, 0x61, 0x61] (bytes_value [0x76])) = None"
  by (simp add: Verify_def InitChecksum_def computeChecksum_def payload_bytes_def bytes_value_def
      crc_ka crc_collision_payload crc_collision_key)


section \<open>The retry options\<close>

lemma next_backoff_iter:
  "(next_backoff TxnRetryOptions ^^ n) (Backoff TxnRetryOptions) = min (50 * Millisecond * 2 ^ n) (5 * Second)"
  by (induction n) (simp_all add: next_backoff_def TxnRetryOptions_def Millisecond_def Second_def min_def)

lemma count_down_loop:
  "MaxAttempts opts = 0 \<Longrightarrow>
   RetryWithBackoff (Suc n) opts b c count_down (s\<lparr>net := n\<rparr>)
     = Some (Ret None, s\<lparr>net := 0, slept := slept s @ map (\<lambda>i. (next_backoff opts ^^ i) b) [0..<n]\<rparr>)"
proof (induction n arbitrary: b c s)
  case 0
  then show ?case by (simp add: count_down_def)
next
  case (Suc n)
  have step: "RetryWithBackoff (Suc (Suc n)) opts b c count_down (s\<lparr>net := Suc n\<rparr>)
      = RetryWithBackoff (Suc n) opts (next_backoff opts b) (Suc c) count_down
          ((s\<lparr>slept := slept s @ [b]\<rparr>)\<lparr>net := n\<rparr>)"
    using Suc.prems by (simp add: count_down_def)
  have "map (\<lambda>i. (next_backoff opts ^^ i) b) [0..<Suc n]
      = b # map (\<lambda>i. (next_backoff opts ^^ i) (next_backoff opts b)) [0..<n]"
    by (simp only: map_upt_Suc funpow_Suc_right) simp
  then show ?case
    using Suc.IH [OF Suc.prems, of "next_backoff opts b" "Suc c" "s\<lparr>slept := slept s @ [b]\<rparr>"] step
    by simp
qed

text \<open>
  \<open>TxnRetryOptions\<close>, the options of the retry loop of \<open>RunTransaction\<close>: initial
  backoff 50 ms, factor 2, maximum backoff 5 s, \<open>MaxAttempts = 0\<close>. Under the retry loop
  the backoff after \<open>n\<close> steps is \<open>min (50 ms * 2^n) (5 s)\<close>, and a function that asks to
  continue \<open>n\<close> times is retried \<open>n\<close> times with these waits. They have the values of
  the defaults of the dispatcher.
\<close>

lemma TxnRetryOptions_backoff:
  "Backoff TxnRetryOptions = 50 * Millisecond
   \<and> Constant TxnRetryOptions = 2
   \<and> MaxBackoff TxnRetryOptions = 5 * Second
   \<and> MaxAttempts TxnRetryOptions = 0
   \<and> Millisecond = 1000000 \<and> Second = 1000000000
   \<and> (next_backoff TxnRetryOptions ^^ n) (Backoff TxnRetryOptions) = min (50 * Millisecond * 2 ^ n) (5 * Second)
   \<and> RetryWithBackoff (Suc n) TxnRetryOptions (Backoff TxnRetryOptions) 1 count_down (init_state n)
       = Some (Ret None, (init_state 0)\<lparr>slept := map (\<lambda>i. min (50 * Millisecond * 2 ^ i) (5 * Second)) [0..<n]\<rparr>)"
proof -
  have "MaxAttempts TxnRetryOptions = 0" by (simp add: TxnRetryOptions_def)
  from count_down_loop [OF this, of n "Backoff TxnRetryOptions" 1 "init_state n"]
  have "RetryWithBackoff (Suc n) TxnRetryOptions (Backoff TxnRetryOptions) 1 count_down (init_state n)
       = Some (Ret None, (init_state 0)\<lparr>slept := map (\<lambda>i. min (50 * Millisecond * 2 ^ i) (5 * Second)) [0..<n]\<rparr>)"
    by (simp add: init_state_def next_backoff_iter)
  then show ?thesis
    by (simp add: next_backoff_iter) (simp add: TxnRetryOptions_def Millisecond_def Second_def)
qed

lemma TxnRetryOptions_default: "TxnRetryOptions = DefaultRetryOptions"
  by (simp add: TxnRetryOptions_def DefaultRetryOptions_def)

section \<open>The retry policy of the dispatcher\<close>

lemma backoff_map_Suc:
  "map (\<lambda>i. (next_backoff opts ^^ i) b) [0..<Suc n]
      = b # map (\<lambda>i. (next_backoff opts ^^ i) (next_backoff opts b)) [0..<n]"
  by (simp only: map_upt_Suc funpow_Suc_right) simp

lemma send_retry_flaky:
  "MaxAttempts opts = 0 \<Longrightarrow>
   send_retry (Suc n) opts b c flaky call (s\<lparr>net := n\<rparr>)
     = Some (empty_reply,
             s\<lparr>net := 0, wire := wire s @ replicate (Suc n) call,
               slept := slept s @ map (\<lambda>i. (next_backoff opts ^^ i) b) [0..<n]\<rparr>)"
proof (induction n arbitrary: b c s)
  case 0
  then show ?case by (simp add: flaky_def transient_def empty_reply_def)
next
  case (Suc n)
  have step: "send_retry (Suc (Suc n)) opts b c flaky call (s\<lparr>net := Suc n\<rparr>)
      = send_retry (Suc n) opts (next_backoff opts b) (Suc c) flaky call
          ((s\<lparr>wire := wire s @ [call], slept := slept s @ [b]\<rparr>)\<lparr>net := n\<rparr>)"
    using Suc.prems by (simp add: flaky_def transient_def empty_reply_def)
  show ?case
    using Suc.IH [OF Suc.prems, of "next_backoff opts b" "Suc c" "s\<lparr>wire := wire s @ [call], slept := slept s @ [b]\<rparr>"]
    by (simp only: step backoff_map_Suc) simp
qed

lemma send_retry_dead:
  "0 < MaxAttempts opts \<Longrightarrow> c + m = MaxAttempts opts \<Longrightarrow>
   send_retry (Suc m) opts b c dead call s
     = Some (empty_reply\<lparr>GoError := Some TransportError\<rparr>,
             s\<lparr>wire := wire s @ replicate (Suc m) call,
               slept := slept s @ map (\<lambda>i. (next_backoff opts ^^ i) b) [0..<m]\<rparr>)"
proof (induction m arbitrary: b c s)
  case 0
  then show ?case by (simp add: dead_def transient_def)
next
  case (Suc m)
  have step: "send_retry (Suc (Suc m)) opts b c dead call s
      = send_retry (Suc m) opts (next_backoff opts b) (Suc c) dead call
          (s\<lparr>wire := wire s @ [call], slept := slept s @ [b]\<rparr>)"
    using Suc.prems by (simp add: dead_def transient_def)
  have c: "Suc c + m = MaxAttempts opts" using Suc.prems by simp
  show ?case
    using Suc.IH [OF Suc.prems(1) c, of "next_backoff opts b" "s\<lparr>wire := wire s @ [call], slept := slept s @ [b]\<rparr>"]
    by (simp only: step backoff_map_Suc) simp
qed

lemma default_backoff_iter:
  "(next_backoff DefaultRetryOptions ^^ n) (Backoff DefaultRetryOptions) = min (50 * Millisecond * 2 ^ n) (5 * Second)"
  by (induction n) (simp_all add: next_backoff_def DefaultRetryOptions_def Millisecond_def Second_def min_def)

lemma next_backoff_MaxAttempts [simp]:
  "next_backoff (opts\<lparr>MaxAttempts := k\<rparr>) = next_backoff opts"
  by (simp add: next_backoff_def fun_eq_iff)

text \<open>
  On a routing layer whose reply is not a transient fault the dispatcher sends once; but
  for the command identifier this is the \<open>direct_Send\<close> of the test client.
\<close>

lemma singleCallSender_Send_no_fault:
  "\<not> transient (GoError (fst (w (assign_cmd_id cid call) (net s)))) \<Longrightarrow>
   singleCallSender_Send (Suc fuel) opts cid w call s = Some (direct_Send w (assign_cmd_id cid call) s)"
proof -
  assume nt: "\<not> transient (GoError (fst (w (assign_cmd_id cid call) (net s))))"
  obtain r n' where w: "w (assign_cmd_id cid call) (net s) = (r, n')"
    by (cases "w (assign_cmd_id cid call) (net s)")
  with nt show ?thesis
    by (simp add: singleCallSender_Send_def direct_Send_def)
qed

text \<open>
  Claim C10. The dispatcher retries transient faults with exponential backoff: by
  default the initial backoff is 50 ms, the factor 2, the maximum backoff 5 s and the
  number of attempts unbounded. After \<open>n\<close> transient faults in a row, for every \<open>n\<close>, the
  call has been sent \<open>n + 1\<close> times with one command identifier, the waits were
  \<open>min (50 ms * 2^i) (5 s)\<close> for \<open>i < n\<close>, and the caller gets the reply of the last send.
  The options are configurable: with other options the waits follow their backoff, factor
  and maximum, and with \<open>MaxAttempts = k > 0\<close> the dispatcher gives up after \<open>k\<close> sends
  and hands the transient fault to the caller. A reply that is not a transient fault is
  not retried.
\<close>

theorem dispatcher_backoff:
  "Backoff DefaultRetryOptions = 50 * Millisecond
   \<and> Constant DefaultRetryOptions = 2
   \<and> MaxBackoff DefaultRetryOptions = 5 * Second
   \<and> MaxAttempts DefaultRetryOptions = 0
   \<and> Millisecond = 1000000 \<and> Second = 1000000000
   \<and> singleCallSender_Send (Suc n) DefaultRetryOptions cid flaky call (s\<lparr>net := n\<rparr>)
       = Some (empty_reply,
               s\<lparr>net := 0, wire := wire s @ replicate (Suc n) (assign_cmd_id cid call),
                 slept := slept s @ map (\<lambda>i. min (50 * Millisecond * 2 ^ i) (5 * Second)) [0..<n]\<rparr>)
   \<and> (MaxAttempts opts = 0 \<longrightarrow>
        singleCallSender_Send (Suc n) opts cid flaky call (s\<lparr>net := n\<rparr>)
          = Some (empty_reply,
                  s\<lparr>net := 0, wire := wire s @ replicate (Suc n) (assign_cmd_id cid call),
                    slept := slept s @ map (\<lambda>i. (next_backoff opts ^^ i) (Backoff opts)) [0..<n]\<rparr>))
   \<and> (0 < k \<longrightarrow>
        singleCallSender_Send k (DefaultRetryOptions\<lparr>MaxAttempts := k\<rparr>) cid dead call u
          = Some (empty_reply\<lparr>GoError := Some TransportError\<rparr>,
                  u\<lparr>wire := wire u @ replicate k (assign_cmd_id cid call),
                    slept := slept u @ map (\<lambda>i. min (50 * Millisecond * 2 ^ i) (5 * Second)) [0..<k - 1]\<rparr>))
   \<and> (\<not> transient (GoError r) \<longrightarrow>
        singleCallSender_Send (Suc fuel) opts cid (steady r) call u
          = Some (r, u\<lparr>wire := wire u @ [assign_cmd_id cid call]\<rparr>))"
proof -
  have d0: "MaxAttempts DefaultRetryOptions = 0"
    by (simp add: DefaultRetryOptions_def)
  have gen: "MaxAttempts opts = 0 \<Longrightarrow>
        singleCallSender_Send (Suc n) opts cid flaky call (s\<lparr>net := n\<rparr>)
          = Some (empty_reply,
                  s\<lparr>net := 0, wire := wire s @ replicate (Suc n) (assign_cmd_id cid call),
                    slept := slept s @ map (\<lambda>i. (next_backoff opts ^^ i) (Backoff opts)) [0..<n]\<rparr>)" for opts
    by (simp only: singleCallSender_Send_def send_retry_flaky)
  have dflt: "singleCallSender_Send (Suc n) DefaultRetryOptions cid flaky call (s\<lparr>net := n\<rparr>)
       = Some (empty_reply,
               s\<lparr>net := 0, wire := wire s @ replicate (Suc n) (assign_cmd_id cid call),
                 slept := slept s @ map (\<lambda>i. min (50 * Millisecond * 2 ^ i) (5 * Second)) [0..<n]\<rparr>)"
    by (simp only: gen [OF d0] default_backoff_iter)
  have bounded: "singleCallSender_Send k (DefaultRetryOptions\<lparr>MaxAttempts := k\<rparr>) cid dead call u
          = Some (empty_reply\<lparr>GoError := Some TransportError\<rparr>,
                  u\<lparr>wire := wire u @ replicate k (assign_cmd_id cid call),
                    slept := slept u @ map (\<lambda>i. min (50 * Millisecond * 2 ^ i) (5 * Second)) [0..<k - 1]\<rparr>)"
    if k: "0 < k"
  proof -
    obtain m where m: "k = Suc m" using k by (cases k) simp_all
    have "send_retry (Suc m) (DefaultRetryOptions\<lparr>MaxAttempts := k\<rparr>) (Backoff DefaultRetryOptions) 1 dead
            (assign_cmd_id cid call) u
        = Some (empty_reply\<lparr>GoError := Some TransportError\<rparr>,
             u\<lparr>wire := wire u @ replicate (Suc m) (assign_cmd_id cid call),
               slept := slept u @ map (\<lambda>i. (next_backoff (DefaultRetryOptions\<lparr>MaxAttempts := k\<rparr>) ^^ i)
                                              (Backoff DefaultRetryOptions)) [0..<m]\<rparr>)"
      by (rule send_retry_dead) (simp_all add: m)
    then show ?thesis
      by (simp add: singleCallSender_Send_def m default_backoff_iter)
  qed
  have other: "singleCallSender_Send (Suc fuel) opts cid (steady r) call u
          = Some (r, u\<lparr>wire := wire u @ [assign_cmd_id cid call]\<rparr>)"
    if "\<not> transient (GoError r)" for opts
    using that by (simp add: singleCallSender_Send_def steady_def)
  show ?thesis
    using gen dflt bounded other
    by (simp add: DefaultRetryOptions_def Millisecond_def Second_def)
qed

theorem dispatcher_backoff_witness:
  "singleCallSender_Send (Suc 3) DefaultRetryOptions (1000, 42) flaky \<lparr>Method = Put, Args = testPutReq\<rparr> (init_state 3)
     = Some (empty_reply,
             (init_state 0)\<lparr>wire := replicate (Suc 3) (assign_cmd_id (1000, 42) \<lparr>Method = Put, Args = testPutReq\<rparr>),
                             slept := [50000000, 100000000, 200000000]\<rparr>)
   \<and> singleCallSender_Send (Suc 8) DefaultRetryOptions (1000, 42) flaky \<lparr>Method = Put, Args = testPutReq\<rparr> (init_state 8)
     = Some (empty_reply,
             (init_state 0)\<lparr>wire := replicate (Suc 8) (assign_cmd_id (1000, 42) \<lparr>Method = Put, Args = testPutReq\<rparr>),
                             slept := [50000000, 100000000, 200000000, 400000000, 800000000,
                                       1600000000, 3200000000, 5000000000]\<rparr>)
   \<and> singleCallSender_Send (Suc 2) (TxnRetryOptions\<lparr>Backoff := Millisecond\<rparr>) (1000, 42) flaky
         \<lparr>Method = Put, Args = testPutReq\<rparr> (init_state 2)
     = Some (empty_reply,
             (init_state 0)\<lparr>wire := replicate (Suc 2) (assign_cmd_id (1000, 42) \<lparr>Method = Put, Args = testPutReq\<rparr>),
                             slept := [1000000, 2000000]\<rparr>)
   \<and> singleCallSender_Send 2 (DefaultRetryOptions\<lparr>MaxAttempts := 2\<rparr>) (1000, 42) dead
         \<lparr>Method = Put, Args = testPutReq\<rparr> (init_state ())
     = Some (empty_reply\<lparr>GoError := Some TransportError\<rparr>,
             (init_state ())\<lparr>wire := replicate 2 (assign_cmd_id (1000, 42) \<lparr>Method = Put, Args = testPutReq\<rparr>),
                              slept := [50000000]\<rparr>)
   \<and> singleCallSender_Send (Suc 0) DefaultRetryOptions (1000, 42) (steady (empty_reply\<lparr>GoError := Some RangeNotFoundError\<rparr>))
         \<lparr>Method = Put, Args = testPutReq\<rparr> (init_state ())
     = Some (empty_reply\<lparr>GoError := Some RangeNotFoundError\<rparr>,
             (init_state ())\<lparr>wire := [assign_cmd_id (1000, 42) \<lparr>Method = Put, Args = testPutReq\<rparr>]\<rparr>)
   \<and> cmd_id (Header (Args (assign_cmd_id (1000, 42) \<lparr>Method = Put, Args = testPutReq\<rparr>))) = Some (1000, 42)"
proof -
  let ?c = "\<lparr>Method = Put, Args = testPutReq\<rparr>"
  let ?o = "TxnRetryOptions\<lparr>Backoff := Millisecond\<rparr>"
  let ?r = "empty_reply\<lparr>GoError := Some RangeNotFoundError\<rparr>"
  note D3 = dispatcher_backoff [where n = 3 and cid = "(1000, 42)" and call = ?c and s = "init_state 3"
        and opts = ?o and k = 2 and u = "init_state ()" and r = ?r and fuel = 0]
  note D8 = dispatcher_backoff [where n = 8 and cid = "(1000, 42)" and call = ?c and s = "init_state 8"
        and opts = ?o and k = 2 and u = "init_state ()" and r = ?r and fuel = 0]
  note D2 = dispatcher_backoff [where n = 2 and cid = "(1000, 42)" and call = ?c and s = "init_state 2"
        and opts = ?o and k = 2 and u = "init_state ()" and r = ?r and fuel = 0]
  note tl6 = conjunct2 [OF conjunct2 [OF conjunct2 [OF conjunct2 [OF conjunct2 [OF conjunct2]]]]]
  have e3: "map (\<lambda>i. min (50 * Millisecond * 2 ^ i) (5 * Second)) [0..<3]
      = [50000000, 100000000, 200000000]"
    by (simp add: upt_rec Millisecond_def Second_def)
  have e8: "map (\<lambda>i. min (50 * Millisecond * 2 ^ i) (5 * Second)) [0..<8]
      = [50000000, 100000000, 200000000, 400000000, 800000000, 1600000000, 3200000000, 5000000000]"
    by (simp add: upt_rec Millisecond_def Second_def)
  have e2: "map (\<lambda>i. (next_backoff ?o ^^ i) Millisecond) [0..<2] = [1000000, 2000000]"
    by (simp add: upt_rec Millisecond_def Second_def next_backoff_def TxnRetryOptions_def)
  have w1: "singleCallSender_Send (Suc 3) DefaultRetryOptions (1000, 42) flaky ?c (init_state 3)
     = Some (empty_reply,
             (init_state 0)\<lparr>wire := replicate (Suc 3) (assign_cmd_id (1000, 42) ?c),
                             slept := [50000000, 100000000, 200000000]\<rparr>)"
    using conjunct1 [OF tl6 [OF D3]] by (simp add: init_state_def e3)
  have w2: "singleCallSender_Send (Suc 8) DefaultRetryOptions (1000, 42) flaky ?c (init_state 8)
     = Some (empty_reply,
             (init_state 0)\<lparr>wire := replicate (Suc 8) (assign_cmd_id (1000, 42) ?c),
                             slept := [50000000, 100000000, 200000000, 400000000, 800000000,
                                       1600000000, 3200000000, 5000000000]\<rparr>)"
    using conjunct1 [OF tl6 [OF D8]] by (simp add: init_state_def e8)
  have m: "MaxAttempts ?o = 0"
    by (simp add: TxnRetryOptions_def)
  have w3: "singleCallSender_Send (Suc 2) ?o (1000, 42) flaky ?c (init_state 2)
     = Some (empty_reply,
             (init_state 0)\<lparr>wire := replicate (Suc 2) (assign_cmd_id (1000, 42) ?c),
                             slept := [1000000, 2000000]\<rparr>)"
    using conjunct1 [OF conjunct2 [OF tl6 [OF D2]], rule_format, OF m] by (simp add: init_state_def e2)
  have w4: "singleCallSender_Send 2 (DefaultRetryOptions\<lparr>MaxAttempts := 2\<rparr>) (1000, 42) dead ?c (init_state ())
     = Some (empty_reply\<lparr>GoError := Some TransportError\<rparr>,
             (init_state ())\<lparr>wire := replicate 2 (assign_cmd_id (1000, 42) ?c),
                              slept := [50000000]\<rparr>)"
    using conjunct1 [OF conjunct2 [OF conjunct2 [OF tl6 [OF D2]]], rule_format]
    by (simp add: init_state_def Millisecond_def Second_def)
  have t: "\<not> transient (GoError ?r)"
    by (simp add: transient_def)
  have w5: "singleCallSender_Send (Suc 0) DefaultRetryOptions (1000, 42) (steady ?r) ?c (init_state ())
     = Some (?r, (init_state ())\<lparr>wire := [assign_cmd_id (1000, 42) ?c]\<rparr>)"
    using dispatcher_backoff [where opts = DefaultRetryOptions and cid = "(1000, 42)" and call = ?c
        and u = "init_state ()" and r = ?r and fuel = 0, THEN tl6, THEN conjunct2, THEN conjunct2,
        THEN conjunct2, rule_format, OF t]
    by (simp add: init_state_def)
  have w6: "cmd_id (Header (Args (assign_cmd_id (1000, 42) ?c))) = Some (1000, 42)"
    by (simp add: assign_cmd_id_def testPutReq_def)
  from w1 w2 w3 w4 w5 w6 show ?thesis by (simp only: simp_thms)
qed

section \<open>Calls through the child handle\<close>

lemma Header_set_Header [simp]: "Header (set_Header h r) = h"
  by (cases r) simp_all

lemma KV_Call_decorated:
  "KV_Call kv m args s = Send (sender kv) \<lparr>Method = m, Args = set_Header (decorated kv (Header args)) args\<rparr> s"
  by (cases "Header args") (simp add: KV_Call_def Let_def decorated_def)

lemma child_eq:
  "child kv seed opts s =
     (\<lparr>User = User kv, UserPriority = UserPriority kv,
       sender = \<lparr>dyn = txnSender, Send = txnSender_Send (Sender kv),
                 Close = (\<lambda>s. s\<lparr>closed := True\<rparr>), wrapped = Sender kv\<rparr>\<rparr>,
      s\<lparr>txnEnd := False,
        coord_txn := Some \<lparr>txn_name = Name opts, txn_id = rand_id seed,
                           priority = rand_priority seed, isolation = Isolation opts,
                           status = PENDING, epoch = 0,
                           timestamp = \<lparr>WallTime = now seed, Logical = 0\<rparr>,
                           max_timestamp = \<lparr>WallTime = now seed + max_clock_skew seed, Logical = 0\<rparr>,
                           last_heartbeat = None\<rparr>,
        closed := False\<rparr>)"
  by (simp add: child_def newTxnSender_def)

lemma child_fields:
  assumes "child kv seed opts s = (txnKV, s0)"
  shows "User txnKV = User kv" and "UserPriority txnKV = UserPriority kv"
    and "Send (sender txnKV) = txnSender_Send (Sender kv)"
    and "dyn (sender txnKV) = txnSender"
    and "KV_Close txnKV s1 = s1\<lparr>closed := True\<rparr>"
    and "wire s0 = wire s" and "net s0 = net s" and "txnEnd s0 = False"
proof -
  from assms have k: "txnKV = fst (child kv seed opts s)" and s: "s0 = snd (child kv seed opts s)"
    by simp_all
  show "User txnKV = User kv" by (simp add: k child_eq)
  show "UserPriority txnKV = UserPriority kv" by (simp add: k child_eq)
  show "Send (sender txnKV) = txnSender_Send (Sender kv)" by (simp add: k child_eq)
  show "dyn (sender txnKV) = txnSender" by (simp add: k child_eq)
  show "KV_Close txnKV s1 = s1\<lparr>closed := True\<rparr>" by (simp add: k child_eq KV_Close_def)
  show "wire s0 = wire s" by (simp add: s child_eq)
  show "net s0 = net s" by (simp add: s child_eq)
  show "txnEnd s0 = False" by (simp add: s child_eq)
qed

lemma child_decorated:
  assumes "child kv seed opts s = (txnKV, s0)"
  shows "decorated txnKV h = decorated kv h"
  using child_fields(1,2) [OF assms] by (simp add: decorated_def)

lemma txnSender_Send_attach:
  "txnSender_Send w call s =
     (case w (attach call (coord_txn s)) (net s) of
        (r, n') \<Rightarrow>
          (r, if Method call = EndTransaction
              then (case RTxn r of
                      Some t \<Rightarrow> s\<lparr>net := n', wire := wire s @ [attach call (coord_txn s)], coord_txn := Some t\<rparr>
                    | None \<Rightarrow> s\<lparr>net := n', wire := wire s @ [attach call (coord_txn s)]\<rparr>)\<lparr>txnEnd := True\<rparr>
              else (case RTxn r of
                      Some t \<Rightarrow> s\<lparr>net := n', wire := wire s @ [attach call (coord_txn s)], coord_txn := Some t\<rparr>
                    | None \<Rightarrow> s\<lparr>net := n', wire := wire s @ [attach call (coord_txn s)]\<rparr>)))"
  unfolding txnSender_Send_def attach_def Let_def
  by (simp split: prod.split option.split)

lemma txnSender_Send_effect:
  assumes "txnSender_Send w call s = (reply, s')"
  shows "wire s' = wire s @ [attach call (coord_txn s)]"
    and "txnEnd s' = (txnEnd s \<or> Method call = EndTransaction)"
    and "slept s' = slept s" and "logged s' = logged s" and "closed s' = closed s"
proof -
  obtain r n' where w: "w (attach call (coord_txn s)) (net s) = (r, n')"
    by (cases "w (attach call (coord_txn s)) (net s)")
  from assms have "snd (txnSender_Send w call s) = s'" by simp
  then have eq: "s' = (if Method call = EndTransaction
         then (case RTxn r of Some t \<Rightarrow> s\<lparr>net := n', wire := wire s @ [attach call (coord_txn s)], coord_txn := Some t\<rparr>
               | None \<Rightarrow> s\<lparr>net := n', wire := wire s @ [attach call (coord_txn s)]\<rparr>)\<lparr>txnEnd := True\<rparr>
         else (case RTxn r of Some t \<Rightarrow> s\<lparr>net := n', wire := wire s @ [attach call (coord_txn s)], coord_txn := Some t\<rparr>
               | None \<Rightarrow> s\<lparr>net := n', wire := wire s @ [attach call (coord_txn s)]\<rparr>))"
    by (simp only: txnSender_Send_attach w prod.case snd_conv)
  show "wire s' = wire s @ [attach call (coord_txn s)]"
    by (simp add: eq split: option.split)
  show "txnEnd s' = (txnEnd s \<or> Method call = EndTransaction)"
    by (simp add: eq split: option.split)
  show "slept s' = slept s" by (simp add: eq split: option.split)
  show "logged s' = logged s" by (simp add: eq split: option.split)
  show "closed s' = closed s" by (simp add: eq split: option.split)
qed

lemma Method_attach [simp]: "Method (attach call t) = Method call"
  by (simp add: attach_def)

lemma Header_attach [simp]: "Header (Args (attach call t)) = (Header (Args call))\<lparr>txn := t\<rparr>"
  by (simp add: attach_def)

lemma KV_Call_child_effect:
  assumes "child kv seed opts s = (txnKV, s0)" and "KV_Call txnKV m args s1 = (reply, s2)"
  shows "wire s2 = wire s1 @ [attach \<lparr>Method = m, Args = set_Header (decorated kv (Header args)) args\<rparr> (coord_txn s1)]"
    and "txnEnd s2 = (txnEnd s1 \<or> m = EndTransaction)"
    and "slept s2 = slept s1" and "logged s2 = logged s1" and "closed s2 = closed s1"
proof -
  have "txnSender_Send (Sender kv) \<lparr>Method = m, Args = set_Header (decorated kv (Header args)) args\<rparr> s1 = (reply, s2)"
    using assms(2) child_fields(3) [OF assms(1)] child_decorated [OF assms(1)]
    by (simp add: KV_Call_decorated)
  from txnSender_Send_effect [OF this]
  show "wire s2 = wire s1 @ [attach \<lparr>Method = m, Args = set_Header (decorated kv (Header args)) args\<rparr> (coord_txn s1)]"
    and "txnEnd s2 = (txnEnd s1 \<or> m = EndTransaction)"
    and "slept s2 = slept s1" and "logged s2 = logged s1" and "closed s2 = closed s1"
    by simp_all
qed

lemma ends_Nil: "ends [] = 0"
  by (simp add: ends_def)

lemma ends_Cons: "ends (c # cs) = (if Method c = EndTransaction then Suc (ends cs) else ends cs)"
  by (simp add: ends_def)

lemma ends_append: "ends (cs @ ds) = ends cs + ends ds"
  by (simp add: ends_def)

lemma issued_append: "wire s' = wire s @ cs \<Longrightarrow> issued s s' = cs"
  by (simp add: issued_def)

lemma issued_self: "issued s s = []"
  by (simp add: issued_def)

lemma follows_refl: "follows s s"
  by (simp add: follows_def issued_self ends_Nil)

lemma follows_step:
  assumes w: "wire s' = wire s @ [c]"
    and e: "txnEnd s' = (txnEnd s \<or> Method c = EndTransaction)"
    and o: "slept s' = slept s" "logged s' = logged s" "closed s' = closed s"
    and f: "follows s' s1"
  shows "follows s s1"
proof -
  from f have w1: "wire s1 = wire s' @ issued s' s1"
    and e1: "txnEnd s1 = (txnEnd s' \<or> 0 < ends (issued s' s1))"
    and o1: "slept s1 = slept s'" "logged s1 = logged s'" "closed s1 = closed s'"
    by (simp_all add: follows_def)
  have w2: "wire s1 = wire s @ (c # issued s' s1)"
    by (simp only: w1 w append_assoc append_Cons append_Nil)
  then have iss: "issued s s1 = c # issued s' s1"
    by (rule issued_append)
  have "txnEnd s1 = (txnEnd s \<or> 0 < ends (issued s s1))"
    by (simp add: e1 e iss ends_Cons)
  moreover have "wire s1 = wire s @ issued s s1"
    by (simp only: iss w2)
  ultimately show ?thesis
    by (simp add: follows_def o1 o)
qed

lemma run_closure_follows:
  assumes ch: "child kv seed opts s00 = (txnKV, s0)"
  shows "run_closure txnKV c s = (r, s1) \<Longrightarrow> follows s s1"
proof (induction c arbitrary: s)
  case (Return e)
  then have "s1 = s" by simp
  then show ?case by (simp only: follows_refl)
next
  case Panics
  then have "s1 = s" by simp
  then show ?case by (simp only: follows_refl)
next
  case (TxnCall m args k)
  obtain reply s' where call: "KV_Call txnKV m args s = (reply, s')"
    by (cases "KV_Call txnKV m args s")
  from TxnCall.prems have rest: "run_closure txnKV (k reply) s' = (r, s1)"
    by (simp only: run_closure.simps call prod.case)
  have "k reply \<in> range k" by (rule rangeI)
  then have f: "follows s' s1" using rest by (rule TxnCall.IH)
  note eff = KV_Call_child_effect [OF ch call]
  show ?case
  proof (rule follows_step [OF eff(1) _ eff(3,4,5) f])
    show "txnEnd s' = (txnEnd s \<or> Method (attach \<lparr>Method = m, Args = set_Header (decorated kv (Header args)) args\<rparr> (coord_txn s)) = EndTransaction)"
      by (simp add: eff(2))
  qed
qed

lemmas run_eval = RunTransaction_def child_eq retry_loop_def txn_body_def attempt_def
  KV_Call_def KV_Close_def txnSender_Send_def Sender_def test_client_def init_state_def
  test_seed_def test_opts_def TxnRetryOptions_def next_backoff_def Millisecond_def Second_def
  empty_header_def empty_reply_def observe_def Let_def

section \<open>The tests of RunTransaction\<close>

text \<open>
  \<open>TestKVCommitTransaction\<close> and \<open>TestKVAbortTransaction\<close>: one \<open>EndTransaction\<close>
  on the wire, with \<open>commit\<close> true after a body without error and false after a body
  with an error.
\<close>

lemma TestKVCommitTransaction:
  "observe (RunTransaction (Suc 0) test_seed (test_client silent_route) test_opts (Return None) (init_state ()))
     = Some (Ret None, [(EndTransaction, Some True)], [], True, True)"
  by (simp add: run_eval silent_route_def)

lemma TestKVAbortTransaction:
  "observe (RunTransaction (Suc 0) test_seed (test_client silent_route) test_opts
       (Return (Some (GenericError ''foo''))) (init_state ()))
     = Some (Ret (Some (GenericError ''foo'')), [(EndTransaction, Some False)], [], True, True)"
  by (simp add: run_eval silent_route_def)

section \<open>The driver loop\<close>

lemma dispatch_break:
  "err \<noteq> Some ReadWithinUncertaintyIntervalError \<Longrightarrow> err \<noteq> Some TransactionRetryError \<Longrightarrow>
   err \<noteq> Some TransactionAbortedError \<Longrightarrow> err \<noteq> Some TransactionPushError \<Longrightarrow>
   dispatch err = (RetryBreak, err)"
  by (cases err rule: dispatch.cases) simp_all

lemma txn_body_Ret:
  "attempt txnKV retryable s = (Ret err, s') \<Longrightarrow> txn_body txnKV retryable s = (Ret (dispatch err), s')"
  by (simp add: txn_body_def)

lemma txn_body_Panic:
  "attempt txnKV retryable s = (Panic, s') \<Longrightarrow> txn_body txnKV retryable s = (Panic, s')"
  by (simp add: txn_body_def)

text \<open>
  Fuel only bounds the number of epochs the model looks at: a run that ends with some
  fuel ends in the same way with more.
\<close>

lemma RetryWithBackoff_more_fuel:
  "RetryWithBackoff n opts b c fn s = Some r \<Longrightarrow> RetryWithBackoff (n + m) opts b c fn s = Some r"
proof (induction n arbitrary: b c s)
  case 0
  then show ?case by simp
next
  case (Suc n)
  obtain out s' where f: "fn s = (out, s')" by (cases "fn s")
  show ?case
  proof (cases out)
    case Panic
    with Suc.prems f show ?thesis by simp
  next
    case (Ret p)
    obtain st err where p: "p = (st, err)" by (cases p)
    show ?thesis
    proof (cases st)
      case RetryBreak
      with Suc.prems f Ret p show ?thesis by simp
    next
      case RetryReset
      with Suc.prems f Ret p have "RetryWithBackoff n opts (Backoff opts) 1 fn s' = Some r" by simp
      from Suc.IH [OF this] f Ret p RetryReset show ?thesis by simp
    next
      case RetryContinue
      show ?thesis
      proof (cases "0 < MaxAttempts opts \<and> MaxAttempts opts \<le> c")
        case True
        with Suc.prems f Ret p RetryContinue show ?thesis by simp
      next
        case False
        with Suc.prems f Ret p RetryContinue
        have "RetryWithBackoff n opts (next_backoff opts b) (Suc c) fn (s'\<lparr>slept := slept s' @ [b]\<rparr>) = Some r"
          by simp
        from Suc.IH [OF this] f Ret p RetryContinue False show ?thesis by auto
      qed
    qed
  qed
qed

lemma RunTransaction_more_fuel:
  "RunTransaction n seed kv opts retryable s = Some r \<Longrightarrow>
   RunTransaction (n + m) seed kv opts retryable s = Some r"
proof (cases "dyn (sender kv) = txnSender")
  case True
  assume "RunTransaction n seed kv opts retryable s = Some r"
  with True show ?thesis by (simp add: RunTransaction_def)
next
  case False
  assume run: "RunTransaction n seed kv opts retryable s = Some r"
  obtain K S0 where ch: "child kv seed opts s = (K, S0)" by (cases "child kv seed opts s")
  from run False ch obtain r0 where lp: "retry_loop n K opts retryable S0 = Some r0"
    by (cases "retry_loop n K opts retryable S0") (simp_all add: RunTransaction_def)
  then have "retry_loop (n + m) K opts retryable S0 = Some r0"
    by (simp add: retry_loop_def RetryWithBackoff_more_fuel)
  with run False ch lp show ?thesis by (simp add: RunTransaction_def)
qed

text \<open>
  Claim C1. Let an epoch of the driver loop end with the error \<open>err\<close>. On
  \<open>ReadWithinUncertaintyIntervalError\<close> and \<open>TransactionRetryError\<close> the loop runs the
  next epoch at once: no wait is recorded and the backoff starts over. On
  \<open>TransactionAbortedError\<close> and \<open>TransactionPushError\<close> it first sleeps for the current
  backoff and then runs the next epoch (the attempts of \<open>TxnRetryOptions\<close> are not
  bounded). On any other error, and on \<open>nil\<close>, the loop ends with that error.
\<close>

theorem retry_dispatch:
  assumes "attempt txnKV retryable s = (Ret err, s')"
  shows "(err = Some ReadWithinUncertaintyIntervalError \<or> err = Some TransactionRetryError \<longrightarrow>
            RetryWithBackoff (Suc fuel) opts backoff count (txn_body txnKV retryable) s
              = RetryWithBackoff fuel opts (Backoff opts) 1 (txn_body txnKV retryable) s')
       \<and> ((err = Some TransactionAbortedError \<or> err = Some TransactionPushError) \<and> MaxAttempts opts = 0 \<longrightarrow>
            RetryWithBackoff (Suc fuel) opts backoff count (txn_body txnKV retryable) s
              = RetryWithBackoff fuel opts (next_backoff opts backoff) (Suc count)
                  (txn_body txnKV retryable) (s'\<lparr>slept := slept s' @ [backoff]\<rparr>))
       \<and> (err \<noteq> Some ReadWithinUncertaintyIntervalError \<and> err \<noteq> Some TransactionRetryError
          \<and> err \<noteq> Some TransactionAbortedError \<and> err \<noteq> Some TransactionPushError \<longrightarrow>
            RetryWithBackoff (Suc fuel) opts backoff count (txn_body txnKV retryable) s = Some (Ret err, s'))"
proof -
  note b = txn_body_Ret [OF assms]
  have reset: "err = Some ReadWithinUncertaintyIntervalError \<or> err = Some TransactionRetryError \<Longrightarrow>
      RetryWithBackoff (Suc fuel) opts backoff count (txn_body txnKV retryable) s
        = RetryWithBackoff fuel opts (Backoff opts) 1 (txn_body txnKV retryable) s'"
    using b by auto
  have cont: "err = Some TransactionAbortedError \<or> err = Some TransactionPushError \<Longrightarrow> MaxAttempts opts = 0 \<Longrightarrow>
      RetryWithBackoff (Suc fuel) opts backoff count (txn_body txnKV retryable) s
        = RetryWithBackoff fuel opts (next_backoff opts backoff) (Suc count)
            (txn_body txnKV retryable) (s'\<lparr>slept := slept s' @ [backoff]\<rparr>)"
    using b by auto
  have brk: "err \<noteq> Some ReadWithinUncertaintyIntervalError \<Longrightarrow> err \<noteq> Some TransactionRetryError \<Longrightarrow>
      err \<noteq> Some TransactionAbortedError \<Longrightarrow> err \<noteq> Some TransactionPushError \<Longrightarrow>
      RetryWithBackoff (Suc fuel) opts backoff count (txn_body txnKV retryable) s = Some (Ret err, s')"
    using b by (simp add: dispatch_break)
  from reset cont brk show ?thesis by blast
qed

theorem retry_dispatch_witness:
  "observe (RetryWithBackoff (Suc (Suc 0)) TxnRetryOptions (Backoff TxnRetryOptions) 1
      (txn_body (fst (child (test_client (fail_first ReadWithinUncertaintyIntervalError)) test_seed test_opts (init_state 0))) put_closure)
      (snd (child (test_client (fail_first ReadWithinUncertaintyIntervalError)) test_seed test_opts (init_state 0))))
     = Some (Ret None, [(Put, None), (Put, None), (EndTransaction, Some True)], [], True, False)
   \<and> observe (RetryWithBackoff (Suc (Suc 0)) TxnRetryOptions (Backoff TxnRetryOptions) 1
      (txn_body (fst (child (test_client (fail_first TransactionPushError)) test_seed test_opts (init_state 0))) put_closure)
      (snd (child (test_client (fail_first TransactionPushError)) test_seed test_opts (init_state 0))))
     = Some (Ret None, [(Put, None), (Put, None), (EndTransaction, Some True)], [50000000], True, False)
   \<and> observe (RetryWithBackoff (Suc 0) TxnRetryOptions (Backoff TxnRetryOptions) 1
      (txn_body (fst (child (test_client (fail_first RangeNotFoundError)) test_seed test_opts (init_state 0))) put_closure)
      (snd (child (test_client (fail_first RangeNotFoundError)) test_seed test_opts (init_state 0))))
     = Some (Ret (Some RangeNotFoundError), [(Put, None)], [], False, False)"
proof -
  let ?K = "\<lambda>e. fst (child (test_client (fail_first e)) test_seed test_opts (init_state 0))"
  let ?S = "\<lambda>e. snd (child (test_client (fail_first e)) test_seed test_opts (init_state 0))"
  have a: "attempt (?K e) put_closure (?S e) = (Ret (Some e), snd (attempt (?K e) put_closure (?S e)))" for e
    by (simp add: run_eval fail_first_def put_closure_def testPutReq_def bytes_value_def)
  have m: "MaxAttempts TxnRetryOptions = 0"
    by (simp add: TxnRetryOptions_def)
  show ?thesis
    using retry_dispatch [OF a [of ReadWithinUncertaintyIntervalError], of "Suc 0" TxnRetryOptions "Backoff TxnRetryOptions" 1]
      retry_dispatch [OF a [of TransactionPushError], of "Suc 0" TxnRetryOptions "Backoff TxnRetryOptions" 1] m
      retry_dispatch [OF a [of RangeNotFoundError], of 0 TxnRetryOptions "Backoff TxnRetryOptions" 1]
    by (simp add: run_eval fail_first_def put_closure_def testPutReq_def bytes_value_def)
qed

lemma KV_Call_child_abort:
  assumes ch: "child kv seed opts s = (txnKV, s0)"
    and call: "KV_Call txnKV EndTransaction (EndTransactionRequest empty_header commit) s1 = (reply, s2)"
  shows "wire s2 = wire s1 @ [\<lparr>Method = EndTransaction,
            Args = EndTransactionRequest
              \<lparr>user = User kv,
               user_priority = (if UserPriority kv \<noteq> 0 then Some (UserPriority kv) else None),
               key = [], txn = coord_txn s1, cmd_id = None\<rparr> commit\<rparr>]"
    and "txnEnd s2" and "slept s2 = slept s1" and "logged s2 = logged s1" and "closed s2 = closed s1"
  using KV_Call_child_effect [OF ch call]
  by (simp_all add: attach_def decorated_def empty_header_def)

text \<open>
  Claim C3. When the retry loop ends with an error \<open>e\<close> and \<open>txnEnd\<close> is not set,
  \<open>RunTransaction\<close> sends one \<open>EndTransaction\<close> with \<open>commit = false\<close> through the
  child handle, logs the error of that call if there is one, and returns \<open>e\<close>. When
  the loop ends without error (the commit succeeded), it returns \<open>nil\<close>.
\<close>

theorem abort_on_error_exit:
  assumes nt: "dyn (sender kv) = singleCallSender"
    and ch: "child kv seed opts s = (txnKV, s0)"
    and lp: "retry_loop fuel txnKV opts retryable s0 = Some (Ret err, s1)"
  shows "(err = Some e \<and> \<not> txnEnd s1 \<longrightarrow>
           (\<exists>reply s2.
              KV_Call txnKV EndTransaction (EndTransactionRequest empty_header False) s1 = (reply, s2)
              \<and> wire s2 = wire s1 @ [\<lparr>Method = EndTransaction,
                    Args = EndTransactionRequest
                      \<lparr>user = User kv,
                       user_priority = (if UserPriority kv \<noteq> 0 then Some (UserPriority kv) else None),
                       key = [], txn = coord_txn s1, cmd_id = None\<rparr> False\<rparr>]
              \<and> RunTransaction fuel seed kv opts retryable s
                  = Some (Ret (Some e),
                          (case GoError reply of
                             Some ae \<Rightarrow> s2\<lparr>logged := logged s2 @ [(ae, e)]\<rparr>
                           | None \<Rightarrow> s2)\<lparr>closed := True\<rparr>)))
       \<and> (err = None \<longrightarrow> RunTransaction fuel seed kv opts retryable s = Some (Ret None, s1\<lparr>closed := True\<rparr>))"
proof -
  note cl = child_fields(5) [OF ch]
  have ok: "err = None \<Longrightarrow> RunTransaction fuel seed kv opts retryable s = Some (Ret None, s1\<lparr>closed := True\<rparr>)"
    using nt ch lp by (simp add: RunTransaction_def cl)
  have ab: "\<exists>reply s2.
              KV_Call txnKV EndTransaction (EndTransactionRequest empty_header False) s1 = (reply, s2)
              \<and> wire s2 = wire s1 @ [\<lparr>Method = EndTransaction,
                    Args = EndTransactionRequest
                      \<lparr>user = User kv,
                       user_priority = (if UserPriority kv \<noteq> 0 then Some (UserPriority kv) else None),
                       key = [], txn = coord_txn s1, cmd_id = None\<rparr> False\<rparr>]
              \<and> RunTransaction fuel seed kv opts retryable s
                  = Some (Ret (Some e),
                          (case GoError reply of
                             Some ae \<Rightarrow> s2\<lparr>logged := logged s2 @ [(ae, e)]\<rparr>
                           | None \<Rightarrow> s2)\<lparr>closed := True\<rparr>)"
    if e: "err = Some e" and open_txn: "\<not> txnEnd s1"
  proof -
    obtain reply s2 where call: "KV_Call txnKV EndTransaction (EndTransactionRequest empty_header False) s1 = (reply, s2)"
      by (cases "KV_Call txnKV EndTransaction (EndTransactionRequest empty_header False) s1")
    have run: "RunTransaction fuel seed kv opts retryable s
                  = Some (Ret (Some e),
                          (case GoError reply of
                             Some ae \<Rightarrow> s2\<lparr>logged := logged s2 @ [(ae, e)]\<rparr>
                           | None \<Rightarrow> s2)\<lparr>closed := True\<rparr>)"
      using nt ch lp e open_txn call by (simp add: RunTransaction_def cl split: option.split)
    from call KV_Call_child_abort(1) [OF ch call] run show ?thesis by blast
  qed
  from ok ab show ?thesis by blast
qed

theorem abort_on_error_exit_witness:
  "RunTransaction (Suc 0) test_seed (test_client (fail_end RangeNotFoundError)) test_opts
       (Return (Some (GenericError ''foo''))) (init_state ())
     = Some (Ret (Some (GenericError ''foo'')),
             (snd (child (test_client (fail_end RangeNotFoundError)) test_seed test_opts (init_state ())))
               \<lparr>wire := [\<lparr>Method = EndTransaction,
                           Args = EndTransactionRequest
                             \<lparr>user = ''foo'', user_priority = Some 101, key = [],
                              txn = coord_txn (snd (child (test_client (fail_end RangeNotFoundError)) test_seed test_opts (init_state ()))), cmd_id = None\<rparr>
                             False\<rparr>],
                txnEnd := True,
                logged := [(RangeNotFoundError, GenericError ''foo'')],
                closed := True\<rparr>)
   \<and> RunTransaction (Suc 0) test_seed (test_client silent_route) test_opts (Return None) (init_state ())
     = Some (Ret None,
             (snd (child (test_client silent_route) test_seed test_opts (init_state ())))
               \<lparr>wire := [\<lparr>Method = EndTransaction,
                           Args = EndTransactionRequest
                             \<lparr>user = ''foo'', user_priority = Some 101, key = [],
                              txn = coord_txn (snd (child (test_client silent_route) test_seed test_opts (init_state ()))), cmd_id = None\<rparr>
                             True\<rparr>],
                txnEnd := True, closed := True\<rparr>)"
proof -
  let ?kv = "test_client (fail_end RangeNotFoundError)"
  let ?K = "fst (child ?kv test_seed test_opts (init_state ()))"
  let ?S = "snd (child ?kv test_seed test_opts (init_state ()))"
  let ?kv' = "test_client silent_route"
  let ?K' = "fst (child ?kv' test_seed test_opts (init_state ()))"
  let ?S' = "snd (child ?kv' test_seed test_opts (init_state ()))"
  have nt: "dyn (sender ?kv) = singleCallSender" "dyn (sender ?kv') = singleCallSender"
    by (simp_all add: test_client_def)
  have ch: "child ?kv test_seed test_opts (init_state ()) = (?K, ?S)"
    "child ?kv' test_seed test_opts (init_state ()) = (?K', ?S')"
    by simp_all
  have lp: "retry_loop (Suc 0) ?K test_opts (Return (Some (GenericError ''foo''))) ?S
              = Some (Ret (Some (GenericError ''foo'')), ?S)"
    by (simp add: run_eval)
  have lp': "retry_loop (Suc 0) ?K' test_opts (Return None) ?S'
              = Some (Ret None, snd (the (retry_loop (Suc 0) ?K' test_opts (Return None) ?S')))"
    by (simp add: run_eval silent_route_def)
  show ?thesis
    using abort_on_error_exit [OF nt(1) ch(1) lp, of "GenericError ''foo''"]
      abort_on_error_exit [OF nt(2) ch(2) lp', of "GenericError ''foo''"]
    by (simp add: run_eval fail_end_def silent_route_def)
qed

text \<open>
  When the commit itself fails with an error that is not retried, \<open>txnEnd\<close> is set, so
  the loop error is dropped and \<open>RunTransaction\<close> returns \<open>nil\<close>.
\<close>

lemma failed_commit_returns_nil:
  "observe (RunTransaction (Suc 0) test_seed (test_client (fail_end RangeNotFoundError)) test_opts
       (Return None) (init_state ()))
     = Some (Ret None, [(EndTransaction, Some True)], [], True, True)"
  by (simp add: run_eval fail_end_def)

text \<open>
  Claim C5, as amended. Whenever \<open>RunTransaction\<close> on a non-transactional handle
  returns an error, the last call on the wire is the abort, an \<open>EndTransaction\<close> with
  \<open>commit = false\<close>: the abort is sent before the return. When \<open>retryable\<close> panics, no
  abort is sent: the deferred \<open>Close\<close> of the child handle runs and the panic goes on to
  the caller.
\<close>

theorem error_return_after_abort:
  assumes nt: "dyn (sender kv) = singleCallSender"
  shows "(RunTransaction fuel seed kv opts retryable s = Some (Ret (Some e), s') \<longrightarrow>
            wire s' \<noteq> [] \<and> Method (last (wire s')) = EndTransaction
            \<and> (\<exists>h. Args (last (wire s')) = EndTransactionRequest h False))
       \<and> (child kv seed opts s = (txnKV, s0) \<and> retry_loop fuel txnKV opts retryable s0 = Some (Panic, s1) \<longrightarrow>
            RunTransaction fuel seed kv opts retryable s = Some (Panic, s1\<lparr>closed := True\<rparr>))"
proof -
  obtain K S0 where ch: "child kv seed opts s = (K, S0)"
    by (cases "child kv seed opts s")
  note cl = child_fields(5) [OF ch]
  have p: "RunTransaction fuel seed kv opts retryable s = Some (Panic, s1\<lparr>closed := True\<rparr>)"
    if ch': "child kv seed opts s = (txnKV, s0)"
      and lp: "retry_loop fuel txnKV opts retryable s0 = Some (Panic, s1)"
    using nt ch' lp child_fields(5) [OF ch', of s1] by (simp add: RunTransaction_def)
  have r: "wire s' \<noteq> [] \<and> Method (last (wire s')) = EndTransaction
            \<and> (\<exists>h. Args (last (wire s')) = EndTransactionRequest h False)"
    if run: "RunTransaction fuel seed kv opts retryable s = Some (Ret (Some e), s')"
  proof (cases "retry_loop fuel K opts retryable S0")
    case None
    with nt ch run show ?thesis by (simp add: RunTransaction_def)
  next
    case (Some res)
    obtain out s1' where res: "res = (out, s1')" by (cases res)
    show ?thesis
    proof (cases out)
      case Panic
      with nt ch run Some res show ?thesis by (simp add: RunTransaction_def)
    next
      case (Ret err)
      show ?thesis
      proof (cases "err \<noteq> None \<and> \<not> txnEnd s1'")
        case False
        with nt ch run Some res Ret show ?thesis by (simp add: RunTransaction_def split: if_splits)
      next
        case True
        obtain reply s2 where call: "KV_Call K EndTransaction (EndTransactionRequest empty_header False) s1' = (reply, s2)"
          by (cases "KV_Call K EndTransaction (EndTransactionRequest empty_header False) s1'")
        note w = KV_Call_child_abort(1) [OF ch call]
        have "wire s' = wire s2"
          using nt ch run Some res Ret True call
          by (auto simp: RunTransaction_def cl split: option.splits)
        with w show ?thesis by simp
      qed
    qed
  qed
  from p r show ?thesis by blast
qed

theorem error_return_after_abort_witness:
  "observe (RunTransaction (Suc 0) test_seed (test_client silent_route) test_opts
       (Return (Some (GenericError ''foo''))) (init_state ()))
     = Some (Ret (Some (GenericError ''foo'')), [(EndTransaction, Some False)], [], True, True)
   \<and> RunTransaction (Suc 0) test_seed (test_client silent_route) test_opts Panics (init_state ())
     = Some (Panic, (snd (child (test_client silent_route) test_seed test_opts (init_state ())))\<lparr>closed := True\<rparr>)"
proof -
  let ?kv = "test_client silent_route"
  let ?K = "fst (child ?kv test_seed test_opts (init_state ()))"
  let ?S = "snd (child ?kv test_seed test_opts (init_state ()))"
  have nt: "dyn (sender ?kv) = singleCallSender"
    by (simp add: test_client_def)
  have ch: "child ?kv test_seed test_opts (init_state ()) = (?K, ?S)"
    by simp
  have lp: "retry_loop (Suc 0) ?K test_opts Panics ?S = Some (Panic, ?S)"
    by (simp add: run_eval)
  have run: "RunTransaction (Suc 0) test_seed ?kv test_opts (Return (Some (GenericError ''foo''))) (init_state ())
      = Some (Ret (Some (GenericError ''foo'')),
          snd (the (RunTransaction (Suc 0) test_seed ?kv test_opts (Return (Some (GenericError ''foo''))) (init_state ()))))"
    by (simp add: run_eval silent_route_def)
  show ?thesis
    using error_return_after_abort [OF nt, where fuel = "Suc 0" and seed = test_seed and opts = test_opts
        and retryable = "Return (Some (GenericError ''foo''))" and s = "init_state ()"
        and e = "GenericError ''foo''"
        and s' = "snd (the (RunTransaction (Suc 0) test_seed ?kv test_opts (Return (Some (GenericError ''foo''))) (init_state ())))"]
      error_return_after_abort [OF nt, where fuel = "Suc 0" and seed = test_seed and opts = test_opts
        and retryable = Panics and s = "init_state ()" and txnKV = ?K and ?s0.0 = ?S and ?s1.0 = ?S] run ch lp
    by (simp add: run_eval silent_route_def)
qed

theorem error_return_after_abort_counterexample:
  "observe (RunTransaction (Suc 0) test_seed (test_client silent_route) test_opts
       (TxnCall Put testPutReq (\<lambda>reply. Panics)) (init_state ()))
     = Some (Panic, [(Put, None)], [], False, True)"
  by (simp add: run_eval silent_route_def testPutReq_def bytes_value_def)

section \<open>One EndTransaction per committing epoch\<close>

lemma issued_txnEnd_update: "issued (s\<lparr>txnEnd := b\<rparr>) s1 = issued s s1"
  by (simp add: issued_def)

text \<open>
  Claim C2, as amended. In an epoch in which \<open>retryable\<close> returns no error and has sent
  no \<open>EndTransaction\<close>, the driver sends exactly one, with \<open>commit = true\<close>, through
  the child handle, and the error of the reply to that call is the error of the epoch. In an epoch in which \<open>retryable\<close> has
  sent an \<open>EndTransaction\<close> itself, or returns an error, the driver sends none; an epoch
  that ends with an error of \<open>retryable\<close> before any \<open>EndTransaction\<close> has none at all.
\<close>

theorem epoch_EndTransaction:
  assumes ch: "child kv seed opts s00 = (txnKV, s0)"
    and run: "run_closure txnKV retryable (s\<lparr>txnEnd := False\<rparr>) = (Ret err, s1)"
  shows "(err = None \<and> ends (issued s s1) = 0 \<longrightarrow>
           (\<exists>(reply :: Reply) s2.
              KV_Call txnKV EndTransaction (EndTransactionRequest empty_header True) s1 = (reply, s2)
              \<and> attempt txnKV retryable s = (Ret (GoError reply), s2)
              \<and> issued s s2 = issued s s1 @ [\<lparr>Method = EndTransaction,
                    Args = EndTransactionRequest
                     \<lparr>user = User kv,
                      user_priority = (if UserPriority kv \<noteq> 0 then Some (UserPriority kv) else None),
                      key = [], txn = coord_txn s1, cmd_id = None\<rparr> True\<rparr>]
              \<and> ends (issued s s2) = 1))
       \<and> (0 < ends (issued s s1) \<longrightarrow>
            attempt txnKV retryable s = (Ret err, s1) \<and> ends (issued s (snd (attempt txnKV retryable s))) = ends (issued s s1))
       \<and> (err \<noteq> None \<longrightarrow>
            attempt txnKV retryable s = (Ret err, s1) \<and> ends (issued s (snd (attempt txnKV retryable s))) = ends (issued s s1))"
proof -
  from run_closure_follows [OF ch run]
  have w1: "wire s1 = wire s @ issued s s1" and te: "txnEnd s1 = (0 < ends (issued s s1))"
    by (simp_all add: follows_def issued_txnEnd_update)
  have ended: "attempt txnKV retryable s = (Ret err, s1)" if "0 < ends (issued s s1)"
    using run that te by (simp add: attempt_def)
  have failed: "attempt txnKV retryable s = (Ret err, s1)" if "err \<noteq> None"
    using run that by (cases err) (simp_all add: attempt_def)
  have commit: "\<exists>(reply :: Reply) s2.
              KV_Call txnKV EndTransaction (EndTransactionRequest empty_header True) s1 = (reply, s2)
              \<and> attempt txnKV retryable s = (Ret (GoError reply), s2)
              \<and> issued s s2 = issued s s1 @ [\<lparr>Method = EndTransaction,
                    Args = EndTransactionRequest
                     \<lparr>user = User kv,
                      user_priority = (if UserPriority kv \<noteq> 0 then Some (UserPriority kv) else None),
                      key = [], txn = coord_txn s1, cmd_id = None\<rparr> True\<rparr>]
              \<and> ends (issued s s2) = 1"
    if ok: "err = None" and none: "ends (issued s s1) = 0"
  proof -
    obtain reply s2 where call: "KV_Call txnKV EndTransaction (EndTransactionRequest empty_header True) s1 = (reply, s2)"
      by (cases "KV_Call txnKV EndTransaction (EndTransactionRequest empty_header True) s1")
    let ?c = "\<lparr>Method = EndTransaction,
            Args = EndTransactionRequest
              \<lparr>user = User kv,
               user_priority = (if UserPriority kv \<noteq> 0 then Some (UserPriority kv) else None),
               key = [], txn = coord_txn s1, cmd_id = None\<rparr> True\<rparr>"
    have a: "attempt txnKV retryable s = (Ret (GoError reply), s2)"
      using run ok none te call by (simp add: attempt_def)
    have "wire s2 = wire s @ (issued s s1 @ [?c])"
      using KV_Call_child_abort(1) [OF ch call] w1 by simp
    then have i: "issued s s2 = issued s s1 @ [?c]"
      by (rule issued_append)
    then have e1: "ends (issued s s2) = 1"
      using none by (simp add: ends_append ends_Cons ends_Nil)
    show ?thesis
      using call a i e1 by (intro exI [of _ reply] exI [of _ s2] conjI) simp_all
  qed
  from ended failed commit show ?thesis by auto
qed

theorem epoch_EndTransaction_witness:
  "observe (Some (attempt (fst (child (test_client (fail_end RangeNotFoundError)) test_seed test_opts (init_state ())))
        (Return None) (snd (child (test_client (fail_end RangeNotFoundError)) test_seed test_opts (init_state ())))))
     = Some (Ret (Some RangeNotFoundError), [(EndTransaction, Some True)], [], True, False)
   \<and> observe (Some (attempt (fst (child (test_client silent_route) test_seed test_opts (init_state ())))
        (Return None) (snd (child (test_client silent_route) test_seed test_opts (init_state ())))))
     = Some (Ret None, [(EndTransaction, Some True)], [], True, False)
   \<and> observe (Some (attempt (fst (child (test_client silent_route) test_seed test_opts (init_state ())))
        end_closure (snd (child (test_client silent_route) test_seed test_opts (init_state ())))))
     = Some (Ret None, [(EndTransaction, Some True)], [], True, False)
   \<and> observe (Some (attempt (fst (child (test_client silent_route) test_seed test_opts (init_state ())))
        (Return (Some TransactionPushError)) (snd (child (test_client silent_route) test_seed test_opts (init_state ())))))
     = Some (Ret (Some TransactionPushError), [], [], False, False)"
proof -
  let ?kv = "test_client silent_route"
  let ?K = "fst (child ?kv test_seed test_opts (init_state ()))"
  let ?S = "snd (child ?kv test_seed test_opts (init_state ()))"
  let ?kv' = "test_client (fail_end RangeNotFoundError)"
  let ?K' = "fst (child ?kv' test_seed test_opts (init_state ()))"
  let ?S' = "snd (child ?kv' test_seed test_opts (init_state ()))"
  have ch: "child ?kv test_seed test_opts (init_state ()) = (?K, ?S)"
    by simp
  have ch': "child ?kv' test_seed test_opts (init_state ()) = (?K', ?S')"
    by simp
  have r0: "run_closure ?K' (Return None) (?S'\<lparr>txnEnd := False\<rparr>) = (Ret None, ?S'\<lparr>txnEnd := False\<rparr>)"
    by simp
  have r1: "run_closure ?K (Return None) (?S\<lparr>txnEnd := False\<rparr>) = (Ret None, ?S\<lparr>txnEnd := False\<rparr>)"
    by simp
  have r2: "run_closure ?K end_closure (?S\<lparr>txnEnd := False\<rparr>)
      = (Ret None, snd (run_closure ?K end_closure (?S\<lparr>txnEnd := False\<rparr>)))"
    by (simp add: end_closure_def split: prod.split)
  have r3: "run_closure ?K (Return (Some TransactionPushError)) (?S\<lparr>txnEnd := False\<rparr>)
      = (Ret (Some TransactionPushError), ?S\<lparr>txnEnd := False\<rparr>)"
    by simp
  show ?thesis
    using epoch_EndTransaction [OF ch' r0] epoch_EndTransaction [OF ch r1]
      epoch_EndTransaction [OF ch r2] epoch_EndTransaction [OF ch r3]
    by (simp add: run_eval silent_route_def fail_end_def end_closure_def)
qed

theorem epoch_EndTransaction_counterexample:
  "observe (RunTransaction (Suc (Suc 0)) test_seed (test_client (fail_first TransactionPushError)) test_opts
       put_closure (init_state 0))
     = Some (Ret None, [(Put, None), (Put, None), (EndTransaction, Some True)], [50000000], True, True)
   \<and> ends (wire (snd (attempt
        (fst (child (test_client (fail_first TransactionPushError)) test_seed test_opts (init_state 0)))
        put_closure
        (snd (child (test_client (fail_first TransactionPushError)) test_seed test_opts (init_state 0)))))) = 0"
  by (simp add: run_eval fail_first_def put_closure_def testPutReq_def bytes_value_def ends_def)

section \<open>User and user priority\<close>

text \<open>
  Claim C9, as amended. \<open>KV.Call\<close> sets the user of a request header that has none to
  the user of the handle, and the user priority of a header that has none to the user
  priority of the handle when that is not zero; a handle with user priority zero leaves
  it unset. The child handle of \<open>RunTransaction\<close> has the user and the user priority of
  its parent, so every request sent through it carries these values on the wire.
\<close>

theorem user_propagation:
  assumes ch: "child kv seed opts s0 = (txnKV, s1)"
    and call: "KV_Call txnKV m args s = (reply, s')"
  shows "User txnKV = User kv \<and> UserPriority txnKV = UserPriority kv
       \<and> (\<exists>c. wire s' = wire s @ [c] \<and> Method c = m
            \<and> user (Header (Args c)) = (if user (Header args) = [] then User kv else user (Header args))
            \<and> user_priority (Header (Args c))
                = (if user_priority (Header args) = None \<and> UserPriority kv \<noteq> 0
                   then Some (UserPriority kv) else user_priority (Header args)))
       \<and> (\<exists>c. KV_Call kv m args s = Send (sender kv) c s \<and> Method c = m
            \<and> user (Header (Args c)) = (if user (Header args) = [] then User kv else user (Header args))
            \<and> user_priority (Header (Args c))
                = (if user_priority (Header args) = None \<and> UserPriority kv \<noteq> 0
                   then Some (UserPriority kv) else user_priority (Header args)))"
proof -
  let ?c = "\<lparr>Method = m, Args = set_Header (decorated kv (Header args)) args\<rparr>"
  have parent: "KV_Call kv m args s = Send (sender kv) ?c s \<and> Method ?c = m
            \<and> user (Header (Args ?c)) = (if user (Header args) = [] then User kv else user (Header args))
            \<and> user_priority (Header (Args ?c))
                = (if user_priority (Header args) = None \<and> UserPriority kv \<noteq> 0
                   then Some (UserPriority kv) else user_priority (Header args))"
    by (simp add: KV_Call_decorated decorated_def)
  let ?d = "attach ?c (coord_txn s)"
  have chld: "wire s' = wire s @ [?d] \<and> Method ?d = m
            \<and> user (Header (Args ?d)) = (if user (Header args) = [] then User kv else user (Header args))
            \<and> user_priority (Header (Args ?d))
                = (if user_priority (Header args) = None \<and> UserPriority kv \<noteq> 0
                   then Some (UserPriority kv) else user_priority (Header args))"
    using KV_Call_child_effect(1) [OF ch call] by (simp add: decorated_def)
  from parent chld child_fields(1,2) [OF ch] show ?thesis by blast
qed

theorem user_propagation_witness:
  "map (\<lambda>c. (user (Header (Args c)), user_priority (Header (Args c))))
     (wire (snd (KV_Call (fst (child (test_client silent_route) test_seed test_opts (init_state ())))
        Put testPutReq (snd (child (test_client silent_route) test_seed test_opts (init_state ()))))))
     = [(''foo'', Some 101)]"
proof -
  let ?kv = "test_client silent_route"
  let ?K = "fst (child ?kv test_seed test_opts (init_state ()))"
  let ?S = "snd (child ?kv test_seed test_opts (init_state ()))"
  have ch: "child ?kv test_seed test_opts (init_state ()) = (?K, ?S)"
    by simp
  have call: "KV_Call ?K Put testPutReq ?S = (fst (KV_Call ?K Put testPutReq ?S), snd (KV_Call ?K Put testPutReq ?S))"
    by simp
  show ?thesis
    using user_propagation [OF ch call]
    by (simp add: run_eval silent_route_def testPutReq_def bytes_value_def)
qed

theorem user_propagation_counterexample:
  "UserPriority ((test_client silent_route)\<lparr>UserPriority := 0\<rparr>) = 0
   \<and> map (\<lambda>c. (user (Header (Args c)), user_priority (Header (Args c))))
     (wire (snd (KV_Call (fst (child ((test_client silent_route)\<lparr>UserPriority := 0\<rparr>) test_seed test_opts (init_state ())))
        Put testPutReq (snd (child ((test_client silent_route)\<lparr>UserPriority := 0\<rparr>) test_seed test_opts (init_state ()))))))
     = [(''foo'', None)]"
  by (simp add: run_eval silent_route_def testPutReq_def bytes_value_def)

end
